theory Spec2Isabelle
  imports Complex_Main
begin

section \<open>Numeric conventions\<close>

text \<open>
  The notebooks compute with numpy \<open>float64\<close> arrays. The embedding takes a float to
  be a real number and a one-dimensional array to be a list of reals. Results that numpy
  reports as \<open>nan\<close> or \<open>inf\<close> (the mean of an empty array, a division by a zero
  slope, a density with a non-positive scale) have no real value; the theorems below carry
  the hypotheses that keep the computation away from them.
\<close>

definition np_mean :: "real list \<Rightarrow> real" where
  \<comment> \<open>\<open>np.mean(y)\<close> of a one-dimensional array\<close>
  "np_mean ys = sum_list ys / real (length ys)"

section \<open>Closed-form estimators (notebook ch2/8)\<close>

text \<open>
  \<^verbatim>\<open>
  class LinearMaximumLikelihoodAgent:
      def __init__(self, params: dict) -> None:
          self.params = SimpleNamespace(**params)
          self.posterior_mode = None
      def infer_state(self, y: float):
          self.posterior_mode = (np.mean(y) - self.params.beta_0) / self.params.beta_1
  \<close>
  The parameter dictionary may hold further keys, which the agent never reads: the
  parameter record is extensible and the functions are stated on its scheme.
\<close>

record mle_params =
  beta_0 :: real
  beta_1 :: real

record 'p mle_agent =
  mle_agent_params :: 'p
  mle_posterior_mode :: "real option"

definition LinearMaximumLikelihoodAgent_init :: "'a mle_params_scheme \<Rightarrow> 'a mle_params_scheme mle_agent" where
  "LinearMaximumLikelihoodAgent_init params =
     \<lparr>mle_agent_params = params, mle_posterior_mode = None\<rparr>"

definition mle_infer_state ::
  "'a mle_params_scheme mle_agent \<Rightarrow> real list \<Rightarrow> 'a mle_params_scheme mle_agent" where
  "mle_infer_state self y =
     self\<lparr>mle_posterior_mode :=
       Some ((np_mean y - beta_0 (mle_agent_params self)) / beta_1 (mle_agent_params self))\<rparr>"

text \<open>
  \<^verbatim>\<open>
  class LinearMaximumAprioriAgent:
      def __init__(self, params: dict) -> None:
          self.params = SimpleNamespace(**params)
          self.posterior_mode = None
      def infer_state(self, y: float):
          self.posterior_mode = (self.params.beta_1 * (np.mean(y) - self.params.beta_0)
                                 + self.params.m_x) / (self.params.beta_1**2 + 1)
  \<close>
\<close>

record map_params = mle_params +
  m_x :: real

record 'p map_agent =
  map_agent_params :: 'p
  map_posterior_mode :: "real option"

definition LinearMaximumAprioriAgent_init :: "'a map_params_scheme \<Rightarrow> 'a map_params_scheme map_agent" where
  "LinearMaximumAprioriAgent_init params =
     \<lparr>map_agent_params = params, map_posterior_mode = None\<rparr>"

definition map_infer_state ::
  "'a map_params_scheme map_agent \<Rightarrow> real list \<Rightarrow> 'a map_params_scheme map_agent" where
  "map_infer_state self y =
     self\<lparr>map_posterior_mode :=
       Some ((beta_1 (map_agent_params self) * (np_mean y - beta_0 (map_agent_params self))
              + m_x (map_agent_params self))
             / ((beta_1 (map_agent_params self))\<^sup>2 + 1))\<rparr>"

text \<open>
  The negative Gaussian log-likelihood of the specification, up to the additive constant
  that does not depend on \<open>x\<close>: \<open>\<Sum>\<^sub>i (y\<^sub>i - (\<beta>\<^sub>0 + \<beta>\<^sub>1 x))\<^sup>2 / (2 \<sigma>\<^sup>2)\<close>. It is written from the
  specification; the agent never evaluates it.
\<close>

definition neg_log_likelihood_spec :: "real \<Rightarrow> real \<Rightarrow> real \<Rightarrow> real list \<Rightarrow> real \<Rightarrow> real" where
  "neg_log_likelihood_spec var b0 b1 ys x = (\<Sum>y\<leftarrow>ys. (y - (b0 + b1 * x))\<^sup>2 / (2 * var))"

section \<open>Errors and outcomes\<close>

text \<open>
  The exceptions the modelled code can raise. A method that mutates \<open>self\<close> and may raise
  returns the exception (if any) together with the object as the raise left it.
\<close>

datatype error = ValueError | TypeError | LinAlgError | IndexError | AttributeError

type_synonym 's outcome = "error option \<times> 's"

text \<open>Sequencing of two steps of which the first may raise.\<close>

definition ebind :: "error + 'a \<Rightarrow> ('a \<Rightarrow> error + 'b) \<Rightarrow> error + 'b" where
  "ebind r f = (case r of Inl e \<Rightarrow> Inl e | Inr a \<Rightarrow> f a)"

section \<open>Grid posterior (notebook ch2/7)\<close>

definition norm_pdf :: "real \<Rightarrow> real \<Rightarrow> real \<Rightarrow> real" where
  \<comment> \<open>\<open>scipy.stats.norm.pdf(x, loc, scale)\<close> for \<open>scale > 0\<close>\<close>
  "norm_pdf x loc scale = exp (- ((x - loc) / scale)\<^sup>2 / 2) / (sqrt (2 * pi) * scale)"

definition sum_axis0 :: "nat \<Rightarrow> real list list \<Rightarrow> real list" where
  \<comment> \<open>\<open>a.sum(axis=0)\<close> of an array of shape \<open>(N, n)\<close>, given as its \<open>N\<close> rows\<close>
  "sum_axis0 n rows = map (\<lambda>j. \<Sum>row\<leftarrow>rows. row ! j) [0..<n]"

definition np_max :: "real list \<Rightarrow> error + real" where
  \<comment> \<open>\<open>np.max\<close> raises \<open>ValueError\<close> on an empty array\<close>
  "np_max xs = (case xs of [] \<Rightarrow> Inl ValueError | x # xs' \<Rightarrow> Inr (fold max xs' x))"

text \<open>
  \<^verbatim>\<open>
  class ExactLinearAgent:
      def __init__(self, params: dict) -> None:
          self.params = SimpleNamespace(**params)
          self.log_likelihood = None
          self.log_prior = None
          self.gen_model = None
          self.evidence = None
          self.posterior = None
      def gm(self, x: float) -> float:
          return self.params.beta_1 * x + self.params.beta_0
      def generative_model(self, y: float, generating_function: callable):
          likelihood_i    = norm.pdf(y, loc=generating_function, scale=self.params.std_y)
          self.prior      = norm.pdf(self.params.x_range, loc=self.params.m_x, scale=self.params.s_x)
          self.log_likelihood = np.log(likelihood_i).sum(axis=0)
          self.log_prior = np.log(self.prior)
          return self.log_likelihood + self.log_prior
      def infer_state(self, y: float):
          generating_function = self.gm(x=self.params.x_range)
          self.log_gen_model = self.generative_model(y, generating_function)
          self.posterior = np.exp(self.log_gen_model - np.max(self.log_gen_model))
  \<close>
  The observation batch is the array of shape \<open>(N, 1)\<close> the notebook passes (it reshapes
  \<open>y\<close> with \<open>np.expand_dims(y, axis=1)\<close>), given as the list of its \<open>N\<close> samples; against
  the grid of length \<open>G\<close> the density broadcasts to shape \<open>(N, G)\<close>, one row per sample.
  The attributes \<open>prior\<close> and \<open>log_gen_model\<close> do not exist before the first call; they are
  \<open>None\<close> here until then.
\<close>

record exact_params = map_params +
  std_y :: real
  s_x :: real
  x_range :: "real list"

record exact_agent =
  exact_agent_params :: exact_params
  log_likelihood :: "real list option"
  log_prior :: "real list option"
  gen_model :: "real list option"
  evidence :: "real option"
  posterior :: "real list option"
  prior :: "real list option"
  log_gen_model :: "real list option"

definition ExactLinearAgent_init :: "exact_params \<Rightarrow> exact_agent" where
  "ExactLinearAgent_init params =
     \<lparr>exact_agent_params = params, log_likelihood = None, log_prior = None, gen_model = None,
      evidence = None, posterior = None, prior = None, log_gen_model = None\<rparr>"

definition gm :: "exact_agent \<Rightarrow> real list \<Rightarrow> real list" where
  "gm self x = map (\<lambda>xi. beta_1 (exact_agent_params self) * xi + beta_0 (exact_agent_params self)) x"

definition generative_model :: "exact_agent \<Rightarrow> real list \<Rightarrow> real list \<Rightarrow> exact_agent \<times> real list" where
  "generative_model self y generating_function =
     (let p = exact_agent_params self;
          likelihood_i = map (\<lambda>yi. map (\<lambda>mu. norm_pdf yi mu (std_y p)) generating_function) y;
          pr = map (\<lambda>xi. norm_pdf xi (m_x p) (s_x p)) (x_range p);
          ll = sum_axis0 (length generating_function) (map (map ln) likelihood_i);
          lp = map ln pr
      in (self\<lparr>prior := Some pr, log_likelihood := Some ll, log_prior := Some lp\<rparr>,
          map2 (+) ll lp))"

definition infer_state :: "exact_agent \<Rightarrow> real list \<Rightarrow> exact_agent outcome" where
  "infer_state self y =
     (let generating_function = gm self (x_range (exact_agent_params self));
          (self1, lgm) = generative_model self y generating_function;
          self2 = self1\<lparr>log_gen_model := Some lgm\<rparr>
      in case np_max lgm of
           Inl e \<Rightarrow> (Some e, self2)
         | Inr mx \<Rightarrow> (None, self2\<lparr>posterior := Some (map (\<lambda>l. exp (l - mx)) lgm)\<rparr>))"

text \<open>The agent of the notebook on a three-point grid, for concrete instances.\<close>

definition demo_agent :: exact_agent where
  "demo_agent = ExactLinearAgent_init \<lparr>beta_0 = 3, beta_1 = 2, m_x = 4, std_y = 1/4, s_x = 1/4, x_range = [1, 2, 3]\<rparr>"


section \<open>Vectors and matrices\<close>

text \<open>
  A one-dimensional array is a list, a two-dimensional array the list of its rows. The
  operations below are numpy's on arrays whose shapes agree, and every theorem about them
  states the shapes it takes. Where shapes disagree numpy raises \<open>ValueError\<close> or broadcasts:
  the checked operations \<open>np_add\<close>, \<open>np_sub\<close>, \<open>np_matvec\<close> and \<open>np_inner\<close>, defined with the
  code that calls them, test the shapes first.
\<close>

type_synonym vec = "real list"
type_synonym mat = "real list list"

definition is_mat :: "nat \<Rightarrow> nat \<Rightarrow> mat \<Rightarrow> bool" where
  \<comment> \<open>\<open>A.shape == (r, c)\<close>\<close>
  "is_mat r c A = (length A = r \<and> list_all (\<lambda>row. length row = c) A)"

definition ncols :: "mat \<Rightarrow> nat" where
  "ncols A = (case A of [] \<Rightarrow> 0 | row # _ \<Rightarrow> length row)"

definition dot :: "vec \<Rightarrow> vec \<Rightarrow> real" where
  "dot u v = (\<Sum>(a, b)\<leftarrow>zip u v. a * b)"

definition vec_add :: "vec \<Rightarrow> vec \<Rightarrow> vec" where
  "vec_add u v = map2 (+) u v"

definition vec_smul :: "real \<Rightarrow> vec \<Rightarrow> vec" where
  "vec_smul c v = map ((*) c) v"

definition col :: "mat \<Rightarrow> nat \<Rightarrow> vec" where
  "col A j = map (\<lambda>row. row ! j) A"

definition mat_T :: "mat \<Rightarrow> mat" where
  \<comment> \<open>\<open>A.T\<close>\<close>
  "mat_T A = map (col A) [0..<ncols A]"

definition matvec :: "mat \<Rightarrow> vec \<Rightarrow> vec" where
  \<comment> \<open>\<open>A @ v\<close> for a vector \<open>v\<close>\<close>
  "matvec A v = map (\<lambda>row. dot row v) A"

definition matmul :: "mat \<Rightarrow> mat \<Rightarrow> mat" where
  \<comment> \<open>\<open>A @ B\<close>\<close>
  "matmul A B = map (\<lambda>row. map (\<lambda>j. dot row (col B j)) [0..<ncols B]) A"

definition mat_add :: "mat \<Rightarrow> mat \<Rightarrow> mat" where
  "mat_add A B = map2 (map2 (+)) A B"

definition mat_sub :: "mat \<Rightarrow> mat \<Rightarrow> mat" where
  "mat_sub A B = map2 (map2 (-)) A B"

definition mat_smul :: "real \<Rightarrow> mat \<Rightarrow> mat" where
  "mat_smul c A = map (map ((*) c)) A"

definition mat_sdiv :: "mat \<Rightarrow> real \<Rightarrow> mat" where
  "mat_sdiv A c = map (map (\<lambda>a. a / c)) A"

definition eye :: "nat \<Rightarrow> mat" where
  \<comment> \<open>\<open>np.eye(n)\<close>\<close>
  "eye n = map (\<lambda>i. map (\<lambda>j. if i = j then 1 else 0) [0..<n]) [0..<n]"

definition diag_of_mat :: "mat \<Rightarrow> vec" where
  \<comment> \<open>\<open>np.diag\<close> of a two-dimensional array: its main diagonal\<close>
  "diag_of_mat A = map (\<lambda>i. A ! i ! i) [0..<min (length A) (ncols A)]"

definition diag_of_vec :: "vec \<Rightarrow> mat" where
  \<comment> \<open>\<open>np.diag\<close> of a one-dimensional array: the square matrix with it on the diagonal\<close>
  "diag_of_vec v = map (\<lambda>i. map (\<lambda>j. if i = j then v ! i else 0) [0..<length v]) [0..<length v]"

definition mean_axis0 :: "mat \<Rightarrow> vec" where
  \<comment> \<open>\<open>np.mean(A, axis=0)\<close>: the mean of every column\<close>
  "mean_axis0 A = map (\<lambda>j. sum_list (col A j) / real (length A)) [0..<ncols A]"

definition mean_axis1 :: "mat \<Rightarrow> vec" where
  \<comment> \<open>\<open>np.mean(A, axis=1)\<close>: the mean of every row\<close>
  "mean_axis1 A = map np_mean A"

definition np_cov :: "mat \<Rightarrow> mat" where
  \<comment> \<open>\<open>np.cov(Y)\<close>: rows are variables, columns observations, normalised by \<open>N - 1\<close>\<close>
  "np_cov Y =
     (let Yc = map (\<lambda>row. map (\<lambda>a. a - np_mean row) row) Y
      in mat_sdiv (matmul Yc (mat_T Yc)) (real (ncols Y) - 1))"

definition is_diagonal :: "mat \<Rightarrow> bool" where
  "is_diagonal A = (\<forall>i<length A. \<forall>j<length (A ! i). i \<noteq> j \<longrightarrow> A ! i ! j = 0)"

definition inverse_of :: "mat \<Rightarrow> mat \<Rightarrow> bool" where
  \<comment> \<open>\<open>B\<close> is the inverse of the square matrix \<open>A\<close>\<close>
  "inverse_of A B =
     (is_mat (length A) (length A) A \<and> is_mat (length A) (length A) B
      \<and> matmul A B = eye (length A) \<and> matmul B A = eye (length A))"

text \<open>
  \<open>numpy.linalg.inv\<close> is a library function, a parameter \<open>np_inv\<close> of every function that
  calls it: it returns the inverse or raises \<open>LinAlgError\<close>. \<open>inv_spec\<close> says that what it
  returns is the inverse. \<open>inv2\<close> is the closed-form inverse of matrices up to \<open>2 \<times> 2\<close>, used for
  concrete instances.
\<close>

definition inv_spec :: "(mat \<Rightarrow> error + mat) \<Rightarrow> bool" where
  "inv_spec np_inv = (\<forall>A B. np_inv A = Inr B \<longrightarrow> inverse_of A B)"

fun inv2 :: "mat \<Rightarrow> error + mat" where
  "inv2 [[a]] = (if a = 0 then Inl LinAlgError else Inr [[1 / a]])"
| "inv2 [[a, b], [c, d]] =
     (if a * d - b * c = 0 then Inl LinAlgError
      else Inr [[d / (a * d - b * c), - b / (a * d - b * c)],
                [- c / (a * d - b * c), a / (a * d - b * c)]])"
| "inv2 _ = Inl LinAlgError"

section \<open>Multiple linear regression agent (the notebook of \<open>src/unnamed/part_000\<close>)\<close>

text \<open>
  \<^verbatim>\<open>
  def build_data_matrix(X_star: np.ndarray) -> np.ndarray:
      return np.insert(X_star, 0, 1, axis=1)

  class MultipleLinearRegressionAgent:
      def __init__(self) -> None:
          ...
      def mle_theta(self, X: np.ndarray, y: np.ndarray) -> np.ndarray:
          return np.linalg.pinv(X) @ y
      def build_data_matrix(self, X_star: np.ndarray) -> np.ndarray:
          return np.insert(X_star, 0, 1, axis=1)
      def learn_parameters(self, X_star: np.ndarray, y: np.ndarray) -> None:
          X = build_data_matrix(self, X_star)
          self.theta = self.mle_theta(X, y)
  \<close>
  Inside a method a bare name is looked up in the module, not in the class: the call in
  \<open>learn_parameters\<close> reaches the module-level function. A call binds its positional
  arguments to the parameters of the function and raises \<open>TypeError\<close> when their numbers
  differ; the module-level function is therefore modelled on the list of its arguments.
  The attribute \<open>theta\<close> does not exist until \<open>learn_parameters\<close> assigns it (\<open>None\<close> here).
  \<open>numpy.linalg.pinv\<close> is a library function and a parameter.
\<close>

record mlr_agent =
  theta :: "vec option"

datatype pyval = PyAgent mlr_agent | PyArray mat

definition np_insert_ones :: "mat \<Rightarrow> mat" where
  \<comment> \<open>\<open>np.insert(X_star, 0, 1, axis=1)\<close>: a column of ones in front\<close>
  "np_insert_ones X_star = map ((#) 1) X_star"

definition build_data_matrix :: "pyval list \<Rightarrow> error + mat" where
  \<comment> \<open>the module-level function, of one parameter; numpy rejects an argument that is
      not a two-dimensional array\<close>
  "build_data_matrix args =
     (case args of
        [X_star] \<Rightarrow> (case X_star of PyArray A \<Rightarrow> Inr (np_insert_ones A) | PyAgent _ \<Rightarrow> Inl ValueError)
      | _ \<Rightarrow> Inl TypeError)"

definition MultipleLinearRegressionAgent_init :: mlr_agent where
  "MultipleLinearRegressionAgent_init = \<lparr>theta = None\<rparr>"

definition mle_theta :: "(mat \<Rightarrow> mat) \<Rightarrow> mlr_agent \<Rightarrow> mat \<Rightarrow> vec \<Rightarrow> vec" where
  "mle_theta pinv self X y = matvec (pinv X) y"

definition MultipleLinearRegressionAgent_build_data_matrix :: "mlr_agent \<Rightarrow> mat \<Rightarrow> mat" where
  \<comment> \<open>the method of the same name, which \<open>learn_parameters\<close> does not call\<close>
  "MultipleLinearRegressionAgent_build_data_matrix self X_star = np_insert_ones X_star"

definition learn_parameters :: "(mat \<Rightarrow> mat) \<Rightarrow> mlr_agent \<Rightarrow> mat \<Rightarrow> vec \<Rightarrow> mlr_agent outcome" where
  "learn_parameters pinv self X_star y =
     (case build_data_matrix [PyAgent self, PyArray X_star] of
        Inl e \<Rightarrow> (Some e, self)
      | Inr X \<Rightarrow> (None, self\<lparr>theta := Some (mle_theta pinv self X y)\<rparr>))"

section \<open>Environments\<close>

text \<open>
  Addition and products of one-dimensional arrays as numpy evaluates them: two arrays of
  equal length are added element by element, an array of length one is broadcast against
  the other, and any other pair of lengths raises \<open>ValueError\<close>; a matrix product needs the
  inner dimensions to agree. A scalar draw is an array of length one here, which numpy
  broadcasts in the same way.
\<close>

definition np_add :: "vec \<Rightarrow> vec \<Rightarrow> error + vec" where
  "np_add u v =
     (if length u = length v then Inr (map2 (+) u v)
      else if length u = 1 then Inr (map (\<lambda>b. hd u + b) v)
      else if length v = 1 then Inr (map (\<lambda>a. a + hd v) u)
      else Inl ValueError)"

definition np_matvec :: "mat \<Rightarrow> vec \<Rightarrow> error + vec" where
  \<comment> \<open>\<open>A @ v\<close> for a two-dimensional \<open>A\<close> and a one-dimensional \<open>v\<close>\<close>
  "np_matvec A v = (if list_all (\<lambda>row. length row = length v) A then Inr (matvec A v) else Inl ValueError)"

definition np_inner :: "vec \<Rightarrow> vec \<Rightarrow> error + real" where
  \<comment> \<open>\<open>u @ v\<close> for two one-dimensional arrays\<close>
  "np_inner u v = (if length u = length v then Inr (dot u v) else Inl ValueError)"

text \<open>
  The environment of \<open>src/unnamed/part_001\<close>:
  \<^verbatim>\<open>
  class StaticEnvironment:
      def __init__(self, params: dict) -> None:
          self.params = SimpleNamespace(**params)
      def _noise(self, cov: float, dim: int):
          return multivariate_normal.rvs(mean=np.zeros(dim), cov=cov)
      def _generating_function(self, x_star: np.ndarray) -> float:
          return self.params.Theta_star @ x_star + self.params.b_star
      def generate(self, x_star: float) -> float:
          x_noise = self._noise(cov=self.params.cov_x_star, dim=self.params.C)
          y_noise = self._noise(cov=self.params.cov_y_star, dim=self.params.D)
          # Noise-ify external states and generate noisy y
          x_star_noise = x_star + x_noise
          return self._generating_function(x_star_noise) + y_noise
  \<close>
  The environment of notebook ch3/6 differs in the last two lines, which keep the noisy
  state on the object:
  \<^verbatim>\<open>
          self.x_star_noise = x_star + x_noise
          return self._generating_function(self.x_star_noise) + y_noise
  \<close>
  \<open>multivariate_normal.rvs\<close> is a library function that draws from scipy's random generator:
  it is the parameter \<open>rvs\<close>, which takes the mean, the covariance and the state of the
  generator and returns the draw, or the exception it raises, with the state after the
  call. \<open>generate\<close> threads the state through its two calls, in the order the code makes
  them, and returns the observation or the exception, the object after the call and the
  state of the generator. The notebooks pass the scalar \<open>0\<close> for \<open>b_star\<close> and document it
  as a vector; numpy adds either.
\<close>

datatype offset = Scalar real | Vector vec

fun add_offset :: "vec \<Rightarrow> offset \<Rightarrow> vec" where
  "add_offset v (Scalar b) = map (\<lambda>a. a + b) v"
| "add_offset v (Vector b) = vec_add v b"

fun np_add_offset :: "vec \<Rightarrow> offset \<Rightarrow> error + vec" where
  \<comment> \<open>\<open>v + b_star\<close>\<close>
  "np_add_offset v (Scalar b) = Inr (map (\<lambda>a. a + b) v)"
| "np_add_offset v (Vector b) = np_add v b"

record env_params =
  Theta_star :: mat
  cov_x_star :: mat
  cov_y_star :: mat
  env_C :: nat
  env_D :: nat
  b_star :: offset

record static_env =
  static_env_params :: env_params

record static_env_em = static_env +
  x_star_noise :: "vec option"

definition noise :: "(vec \<Rightarrow> mat \<Rightarrow> 'g \<Rightarrow> (error + vec) \<times> 'g) \<Rightarrow> mat \<Rightarrow> nat \<Rightarrow> 'g \<Rightarrow> (error + vec) \<times> 'g" where
  \<comment> \<open>\<open>_noise\<close>\<close>
  "noise rvs cov d g = rvs (replicate d 0) cov g"

definition generating_function :: "'a static_env_scheme \<Rightarrow> vec \<Rightarrow> error + vec" where
  \<comment> \<open>\<open>_generating_function\<close>\<close>
  "generating_function self x_star =
     ebind (np_matvec (Theta_star (static_env_params self)) x_star)
       (\<lambda>v. np_add_offset v (b_star (static_env_params self)))"

definition generate ::
  "(vec \<Rightarrow> mat \<Rightarrow> 'g \<Rightarrow> (error + vec) \<times> 'g) \<Rightarrow> static_env \<Rightarrow> vec \<Rightarrow> 'g
     \<Rightarrow> (error + vec) \<times> static_env \<times> 'g" where
  \<comment> \<open>part_001\<close>
  "generate rvs self x_star g =
     (let p = static_env_params self;
          (rx, g1) = noise rvs (cov_x_star p) (env_C p) g
      in case rx of
           Inl e \<Rightarrow> (Inl e, self, g1)
         | Inr x_noise \<Rightarrow>
             let (ry, g2) = noise rvs (cov_y_star p) (env_D p) g1
             in case ry of
                  Inl e \<Rightarrow> (Inl e, self, g2)
                | Inr y_noise \<Rightarrow>
                    (ebind (np_add x_star x_noise)
                       (\<lambda>x_star_noise'. ebind (generating_function self x_star_noise')
                          (\<lambda>f. np_add f y_noise)),
                     self, g2))"

definition generate_em ::
  "(vec \<Rightarrow> mat \<Rightarrow> 'g \<Rightarrow> (error + vec) \<times> 'g) \<Rightarrow> static_env_em \<Rightarrow> vec \<Rightarrow> 'g
     \<Rightarrow> (error + vec) \<times> static_env_em \<times> 'g" where
  \<comment> \<open>notebook ch3/6\<close>
  "generate_em rvs self x_star g =
     (let p = static_env_params self;
          (rx, g1) = noise rvs (cov_x_star p) (env_C p) g
      in case rx of
           Inl e \<Rightarrow> (Inl e, self, g1)
         | Inr x_noise \<Rightarrow>
             let (ry, g2) = noise rvs (cov_y_star p) (env_D p) g1
             in case ry of
                  Inl e \<Rightarrow> (Inl e, self, g2)
                | Inr y_noise \<Rightarrow>
                    (case np_add x_star x_noise of
                       Inl e \<Rightarrow> (Inl e, self, g2)
                     | Inr xn \<Rightarrow>
                         let self1 = self\<lparr>x_star_noise := Some xn\<rparr>
                         in (ebind (generating_function self1 xn) (\<lambda>f. np_add f y_noise), self1, g2)))"

text \<open>
  The environment of the regression notebooks (part_000 and ch3/3a):
  \<^verbatim>\<open>
      def _noise(self):
          return np.random.normal(loc=0, scale=self.params.y_star_std)
      def _generating_function(self, x_star: np.array) -> float:
          return x_star.T @ self.params.theta_star
      def generate(self, x_star: float) -> float:
          x_star = np.insert(x_star, 0, 1)
          return self._generating_function(x_star) + self._noise()
  \<close>
  \<open>np.random.normal\<close> is the parameter \<open>normal\<close>, of the location, the scale and the state of
  the generator. The generating function is evaluated before the draw is made.
\<close>

record reg_env_params =
  theta_star :: vec
  y_star_std :: real
  reg_C :: nat

record reg_env =
  reg_env_params :: reg_env_params

definition reg_noise :: "(real \<Rightarrow> real \<Rightarrow> 'g \<Rightarrow> (error + real) \<times> 'g) \<Rightarrow> reg_env \<Rightarrow> 'g \<Rightarrow> (error + real) \<times> 'g" where
  "reg_noise normal self g = normal 0 (y_star_std (reg_env_params self)) g"

definition reg_generating_function :: "reg_env \<Rightarrow> vec \<Rightarrow> error + real" where
  "reg_generating_function self x_star = np_inner x_star (theta_star (reg_env_params self))"

definition reg_generate ::
  "(real \<Rightarrow> real \<Rightarrow> 'g \<Rightarrow> (error + real) \<times> 'g) \<Rightarrow> reg_env \<Rightarrow> vec \<Rightarrow> 'g
     \<Rightarrow> (error + real) \<times> reg_env \<times> 'g" where
  "reg_generate normal self x_star g =
     (let x_star' = 1 # x_star in
      case reg_generating_function self x_star' of
        Inl e \<Rightarrow> (Inl e, self, g)
      | Inr f \<Rightarrow>
          (case reg_noise normal self g of
             (Inl e, g1) \<Rightarrow> (Inl e, self, g1)
           | (Inr eps, g1) \<Rightarrow> (Inr (f + eps), self, g1)))"

text \<open>
  For concrete instances: a generator that replays recorded draws, whatever the mean and
  the covariance (and draws the mean when none is left); a one-dimensional environment
  with identity mixing and no offset; an environment with three observation channels, two
  state dimensions and a vector offset; and a regression environment.
\<close>

definition tape_rvs :: "vec \<Rightarrow> mat \<Rightarrow> vec list \<Rightarrow> (error + vec) \<times> vec list" where
  "tape_rvs mean cov tape = (case tape of [] \<Rightarrow> (Inr mean, []) | v # rest \<Rightarrow> (Inr v, rest))"

definition tape_normal :: "real \<Rightarrow> real \<Rightarrow> real list \<Rightarrow> (error + real) \<times> real list" where
  "tape_normal loc scale tape = (case tape of [] \<Rightarrow> (Inr loc, []) | v # rest \<Rightarrow> (Inr v, rest))"

definition unit_env_params :: env_params where
  "unit_env_params = \<lparr>Theta_star = [[1]], cov_x_star = [[1]], cov_y_star = [[1]],
                        env_C = 1, env_D = 1, b_star = Scalar 0\<rparr>"

definition unit_env :: static_env where
  "unit_env = \<lparr>static_env_params = unit_env_params\<rparr>"

definition unit_env_em :: static_env_em where
  "unit_env_em = \<lparr>static_env_params = unit_env_params, x_star_noise = None\<rparr>"

definition demo_env_params :: env_params where
  "demo_env_params = \<lparr>Theta_star = [[1, 2], [0, 1], [3, 0]],
                        cov_x_star = [[1, 0], [0, 1]], cov_y_star = [[1, 0, 0], [0, 1, 0], [0, 0, 1]],
                        env_C = 2, env_D = 3, b_star = Vector [1, -1, 0]\<rparr>"

definition demo_env :: static_env where
  "demo_env = \<lparr>static_env_params = demo_env_params\<rparr>"

definition demo_env_em :: static_env_em where
  "demo_env_em = \<lparr>static_env_params = demo_env_params, x_star_noise = None\<rparr>"

definition demo_reg_env :: reg_env where
  "demo_reg_env = \<lparr>reg_env_params = \<lparr>theta_star = [3, 2], y_star_std = 1, reg_C = 2\<rparr>\<rparr>"

section \<open>Linear-Gaussian posterior (the notebook of \<open>src/unnamed/part_001\<close>)\<close>

text \<open>
  \<^verbatim>\<open>
  class FactorAnalysisAgent:
      def __init__(self, params: dict) -> None:
          self.params = SimpleNamespace(**params)
      def infer_states(self, y: np.ndarray):
          Pi_x = inv(self.params.cov_x)
          Pi_y = inv(self.params.cov_y)
          self.cov_posterior = inv(Pi_x + self.params.N * Pi_y)
          self.mean_posterior = self.cov_posterior @ (Pi_y @ (self.params.N * np.mean(y, axis=0))
                                                      + Pi_x @ self.params.mu_x)
          self.posterior = multivariate_normal.pdf(self.params.grid, self.mean_posterior,
                                                   self.cov_posterior)
  \<close>
  The batch \<open>y\<close> has one observation vector per row. \<open>N\<close> is the integer of the parameter
  dictionary, not the length of the batch. \<open>multivariate_normal.pdf\<close> is a library function
  and a parameter \<open>mvn_pdf\<close>; when it raises, the two attributes assigned before the call
  stay assigned. The three attributes do not exist before the call (\<open>None\<close> here).
\<close>

record fa_params =
  cov_x :: mat
  fa_cov_y :: mat
  mu_x :: vec
  grid :: "real list list list"
  fa_N :: int

record fa_agent =
  fa_agent_params :: fa_params
  cov_posterior :: "mat option"
  mean_posterior :: "vec option"
  fa_posterior :: "real list list option"

definition FactorAnalysisAgent_init :: "fa_params \<Rightarrow> fa_agent" where
  "FactorAnalysisAgent_init params =
     \<lparr>fa_agent_params = params, cov_posterior = None, mean_posterior = None, fa_posterior = None\<rparr>"

definition infer_states ::
  "(mat \<Rightarrow> error + mat) \<Rightarrow> (real list list list \<Rightarrow> vec \<Rightarrow> mat \<Rightarrow> error + real list list)
     \<Rightarrow> fa_agent \<Rightarrow> mat \<Rightarrow> fa_agent outcome" where
  "infer_states np_inv mvn_pdf self y =
     (let p = fa_agent_params self in
      case np_inv (cov_x p) of Inl e \<Rightarrow> (Some e, self) | Inr Pi_x \<Rightarrow>
      case np_inv (fa_cov_y p) of Inl e \<Rightarrow> (Some e, self) | Inr Pi_y \<Rightarrow>
      case np_inv (mat_add Pi_x (mat_smul (of_int (fa_N p)) Pi_y)) of Inl e \<Rightarrow> (Some e, self) | Inr cp \<Rightarrow>
      let self1 = self\<lparr>cov_posterior := Some cp\<rparr>;
          mp = matvec cp (vec_add (matvec Pi_y (vec_smul (of_int (fa_N p)) (mean_axis0 y)))
                                  (matvec Pi_x (mu_x p)));
          self2 = self1\<lparr>mean_posterior := Some mp\<rparr>
      in case mvn_pdf (grid p) mp cp of
           Inl e \<Rightarrow> (Some e, self2)
         | Inr dens \<Rightarrow> (None, self2\<lparr>fa_posterior := Some dens\<rparr>))"

text \<open>An agent with diagonal covariances and a batch of two observations, for concrete instances.\<close>

definition demo_fa_agent :: fa_agent where
  "demo_fa_agent = FactorAnalysisAgent_init
     \<lparr>cov_x = [[1/2, 0], [0, 1/2]], fa_cov_y = [[1, 0], [0, 1/2]], mu_x = [0, 0], grid = [], fa_N = 2\<rparr>"

section \<open>Expectation maximisation for factor analysis (notebook ch3/6)\<close>

text \<open>
  \<^verbatim>\<open>
  class FactorAnalysisEMAgent:
      def __init__(self, params: dict) -> None:
          self.params = SimpleNamespace(**params)
          C            = self.params.C   # Hidden state dimension
          D            = self.params.D   # Sensory data dimension
          self.J       = self.params.J   # Number of iterations
          self.posterior_mean = np.zeros((self.J, C))
          self.posterior_cov  = np.zeros((self.J, C, C))
          self.Theta          = np.zeros((self.J, D, C))
          self.cov_y          = np.zeros((self.J, D, D))
          self.Theta[0] = self.params.Theta_init
          self.cov_y[0] = self.params.cov_y_init
      def _infer_states(self, Y, j):
          beta = self.Theta[j].T @ inv(self.Theta[j] @ self.Theta[j].T + self.cov_y[j])
          self.posterior_mean_s = beta @ Y
          self.posterior_cov[j]  = np.eye(C) - beta @ self.Theta[j]
          self.posterior_mean[j] = np.mean(self.posterior_mean_s, axis=1)
      def _learn_parameters(self, Y, j):
          delta = Y @ self.posterior_mean_s.T
          gamma = self.posterior_mean_s @ self.posterior_mean_s.T + (N * self.posterior_cov[j])
          if j+1 < self.J:
              self.Theta[j+1] = delta @ inv(gamma)
              self.cov_y[j+1] = diag(diag(self.S - (self.Theta[j+1] @ delta.T / N)))
      def run_EM(self, Y):
          self.S = np.cov(Y)   # Compute the sample covariance
          for j in range(self.J):
              self._infer_states(Y, j=j)
              self._learn_parameters(Y, j=j)
  \<close>
  The arrays indexed by the iteration are lists of length \<open>J\<close>. \<open>C\<close> in \<open>np.eye(C)\<close> and \<open>N\<close>
  in the M-step are variables of the notebook, not attributes of the agent: they are the
  parameters \<open>gC\<close> and \<open>gN\<close>. The attributes \<open>posterior_mean_s\<close> and \<open>S\<close> do not exist before
  the run; reading them then raises \<open>AttributeError\<close>. An index outside an array raises
  \<open>IndexError\<close>, and \<open>inv\<close> may raise \<open>LinAlgError\<close>. A run that raises ends there; the
  functions return the exception or the agent after a normal return.
\<close>

definition zeros :: "nat \<Rightarrow> nat \<Rightarrow> mat" where
  "zeros r c = replicate r (replicate c 0)"

record em_params =
  em_C :: nat
  em_D :: nat
  em_J :: nat
  Theta_init :: mat
  cov_y_init :: mat

record em_agent =
  em_agent_params :: em_params
  J :: nat
  posterior_mean :: "vec list"
  posterior_cov :: "mat list"
  Theta :: "mat list"
  cov_y :: "mat list"
  posterior_mean_s :: "mat option"
  S :: "mat option"

definition FactorAnalysisEMAgent_init :: "em_params \<Rightarrow> error + em_agent" where
  "FactorAnalysisEMAgent_init params =
     (let C = em_C params; D = em_D params; Jn = em_J params in
      if Jn = 0 then Inl IndexError
      else Inr \<lparr>em_agent_params = params, J = Jn,
                posterior_mean = replicate Jn (replicate C 0),
                posterior_cov = replicate Jn (zeros C C),
                Theta = (replicate Jn (zeros D C))[0 := Theta_init params],
                cov_y = (replicate Jn (zeros D D))[0 := cov_y_init params],
                posterior_mean_s = None, S = None\<rparr>)"

definition em_infer_states ::
  "(mat \<Rightarrow> error + mat) \<Rightarrow> nat \<Rightarrow> em_agent \<Rightarrow> mat \<Rightarrow> nat \<Rightarrow> error + em_agent" where
  \<comment> \<open>\<open>_infer_states\<close>, the E-step\<close>
  "em_infer_states np_inv gC self Y j =
     (if length (Theta self) \<le> j \<or> length (cov_y self) \<le> j then Inl IndexError
      else ebind (np_inv (mat_add (matmul (Theta self ! j) (mat_T (Theta self ! j))) (cov_y self ! j)))
        (\<lambda>G. let beta = matmul (mat_T (Theta self ! j)) G;
                  pms = matmul beta Y;
                  self1 = self\<lparr>posterior_mean_s := Some pms\<rparr>
              in if length (posterior_cov self1) \<le> j then Inl IndexError
                 else let self2 = self1\<lparr>posterior_cov :=
                                     (posterior_cov self1)[j := mat_sub (eye gC) (matmul beta (Theta self1 ! j))]\<rparr>
                      in if length (posterior_mean self2) \<le> j then Inl IndexError
                         else Inr (self2\<lparr>posterior_mean := (posterior_mean self2)[j := mean_axis1 pms]\<rparr>)))"

definition em_learn_parameters ::
  "(mat \<Rightarrow> error + mat) \<Rightarrow> nat \<Rightarrow> em_agent \<Rightarrow> mat \<Rightarrow> nat \<Rightarrow> error + em_agent" where
  \<comment> \<open>\<open>_learn_parameters\<close>, the M-step\<close>
  "em_learn_parameters np_inv gN self Y j =
     (case posterior_mean_s self of
        None \<Rightarrow> Inl AttributeError
      | Some pms \<Rightarrow>
          let delta = matmul Y (mat_T pms) in
          if length (posterior_cov self) \<le> j then Inl IndexError
          else let gamma = mat_add (matmul pms (mat_T pms)) (mat_smul (real gN) (posterior_cov self ! j)) in
            if j + 1 < J self then
              ebind (np_inv gamma)
                (\<lambda>Gi. if length (Theta self) \<le> j + 1 then Inl IndexError
                      else let self1 = self\<lparr>Theta := (Theta self)[j + 1 := matmul delta Gi]\<rparr> in
                        case S self1 of
                          None \<Rightarrow> Inl AttributeError
                        | Some Sm \<Rightarrow>
                            if length (cov_y self1) \<le> j + 1 then Inl IndexError
                            else Inr (self1\<lparr>cov_y := (cov_y self1)[j + 1 :=
                                   diag_of_vec (diag_of_mat (mat_sub Sm
                                     (mat_sdiv (matmul (Theta self1 ! (j + 1)) (mat_T delta)) (real gN))))]\<rparr>))
            else Inr self)"

fun em_loop ::
  "(mat \<Rightarrow> error + mat) \<Rightarrow> nat \<Rightarrow> nat \<Rightarrow> mat \<Rightarrow> nat list \<Rightarrow> em_agent \<Rightarrow> error + em_agent" where
  \<comment> \<open>the body of the \<open>for\<close> loop, once for every index of the range\<close>
  "em_loop np_inv gC gN Y [] self = Inr self"
| "em_loop np_inv gC gN Y (j # js) self =
     ebind (em_infer_states np_inv gC self Y j)
       (\<lambda>self1. ebind (em_learn_parameters np_inv gN self1 Y j)
          (\<lambda>self2. em_loop np_inv gC gN Y js self2))"

definition run_EM ::
  "(mat \<Rightarrow> error + mat) \<Rightarrow> nat \<Rightarrow> nat \<Rightarrow> em_agent \<Rightarrow> mat \<Rightarrow> error + em_agent" where
  "run_EM np_inv gC gN self Y =
     (let self1 = self\<lparr>S := Some (np_cov Y)\<rparr>
      in em_loop np_inv gC gN Y [0..<J self1] self1)"

text \<open>
  What iteration \<open>j\<close> of the specification leaves in the arrays of an agent: the E-step
  values at index \<open>j\<close>, computed from \<open>Theta[j]\<close> and \<open>cov_y[j]\<close>, and, when \<open>j + 1 < J\<close>, the
  M-step values at index \<open>j + 1\<close>, every inverse being the matrix that \<open>inv\<close> returned and an
  inverse indeed. It is written from the specification, to be compared with the agent
  after a run.
\<close>

definition em_iteration_spec ::
  "(mat \<Rightarrow> error + mat) \<Rightarrow> nat \<Rightarrow> nat \<Rightarrow> mat \<Rightarrow> em_agent \<Rightarrow> nat \<Rightarrow> bool" where
  "em_iteration_spec np_inv gC gN Y self j =
     (\<exists>G. np_inv (mat_add (matmul (Theta self ! j) (mat_T (Theta self ! j))) (cov_y self ! j)) = Inr G
        \<and> inverse_of (mat_add (matmul (Theta self ! j) (mat_T (Theta self ! j))) (cov_y self ! j)) G
        \<and> (let beta = matmul (mat_T (Theta self ! j)) G;
               pms = matmul beta Y;
               delta = matmul Y (mat_T pms);
               gamma = mat_add (matmul pms (mat_T pms)) (mat_smul (real gN) (posterior_cov self ! j))
           in posterior_mean self ! j = mean_axis1 pms
              \<and> posterior_cov self ! j = mat_sub (eye gC) (matmul beta (Theta self ! j))
              \<and> (j + 1 < J self \<longrightarrow>
                   (\<exists>Gi. np_inv gamma = Inr Gi \<and> inverse_of gamma Gi
                      \<and> Theta self ! (j + 1) = matmul delta Gi
                      \<and> cov_y self ! (j + 1) =
                          diag_of_vec (diag_of_mat (mat_sub (np_cov Y)
                            (mat_sdiv (matmul (Theta self ! (j + 1)) (mat_T delta)) (real gN))))
                      \<and> is_diagonal (cov_y self ! (j + 1))))
              \<and> (j + 1 = J self \<longrightarrow> posterior_mean_s self = Some pms)))"

text \<open>
  A run of two iterations with one hidden dimension, two observation channels and two
  samples, for concrete instances: the parameters, the observations, the agent as
  constructed, the agent after the first iteration and the agent after the run.
\<close>

definition demo_em_params :: em_params where
  "demo_em_params = \<lparr>em_C = 1, em_D = 2, em_J = 2, Theta_init = [[1], [1]], cov_y_init = [[1, 0], [0, 1]]\<rparr>"

definition demo_Y :: mat where
  "demo_Y = [[1, -1], [2, -2]]"

definition demo_em_agent :: em_agent where
  "demo_em_agent = \<lparr>em_agent_params = demo_em_params, J = 2,
      posterior_mean = [[0], [0]], posterior_cov = [[[0]], [[0]]],
      Theta = [[[1], [1]], [[0], [0]]], cov_y = [[[1, 0], [0, 1]], [[0, 0], [0, 0]]],
      posterior_mean_s = None, S = None\<rparr>"

definition demo_em_result :: em_agent where
  "demo_em_result = \<lparr>em_agent_params = demo_em_params, J = 2,
      posterior_mean = [[0], [0]], posterior_cov = [[[1/3]], [[10/19]]],
      Theta = [[[1], [1]], [[3/4], [3/2]]], cov_y = [[[1, 0], [0, 1]], [[5/4, 0], [0, 5]]],
      posterior_mean_s = Some [[12/19, -12/19]], S = Some [[2, 4], [4, 8]]\<rparr>"

definition demo_em_state1 :: em_agent where
  "demo_em_state1 = \<lparr>em_agent_params = demo_em_params, J = 2,
      posterior_mean = [[0], [0]], posterior_cov = [[[1/3]], [[0]]],
      Theta = [[[1], [1]], [[3/4], [3/2]]], cov_y = [[[1, 0], [0, 1]], [[5/4, 0], [0, 5]]],
      posterior_mean_s = Some [[1, -1]], S = Some [[2, 4], [4, 8]]\<rparr>"

section \<open>Supervised regression agent (notebook ch3/3a)\<close>


















section \<open>Verification of the closed-form estimators\<close>

lemma sum_sq_shift:
  "(\<Sum>y\<leftarrow>ys. (y - c)\<^sup>2) = (\<Sum>y\<leftarrow>ys. y\<^sup>2) - 2 * c * sum_list ys + real (length ys) * c\<^sup>2"
  by (induction ys) (simp_all add: power2_eq_square algebra_simps)

lemma nll_eq:
  "neg_log_likelihood_spec var b0 b1 ys x = (\<Sum>y\<leftarrow>ys. (y - (b0 + b1 * x))\<^sup>2) / (2 * var)"
proof -
  have "\<And>f. (\<Sum>y\<leftarrow>ys. f y / (2 * var)) = (\<Sum>y\<leftarrow>ys. (f y :: real)) / (2 * var)"
    by (induction ys) (simp_all add: add_divide_distrib)
  then show ?thesis unfolding neg_log_likelihood_spec_def by simp
qed

lemma nll_diff:
  assumes "ys \<noteq> []" "b1 \<noteq> 0"
  shows "neg_log_likelihood_spec var b0 b1 ys x - neg_log_likelihood_spec var b0 b1 ys ((np_mean ys - b0) / b1)
       = real (length ys) * b1\<^sup>2 * (x - (np_mean ys - b0) / b1)\<^sup>2 / (2 * var)"
proof -
  define n where "n = real (length ys)"
  have n: "n \<noteq> 0" using assms by (simp add: n_def)
  have S: "sum_list ys = n * np_mean ys" using n by (simp add: np_mean_def n_def)
  have c: "b0 + b1 * ((np_mean ys - b0) / b1) = np_mean ys" using assms by simp
  have "(\<Sum>y\<leftarrow>ys. (y - (b0 + b1 * x))\<^sup>2) - (\<Sum>y\<leftarrow>ys. (y - np_mean ys)\<^sup>2)
      = n * (b0 + b1 * x - np_mean ys)\<^sup>2"
    unfolding sum_sq_shift[of _ ys] S n_def[symmetric]
    by (simp add: power2_eq_square algebra_simps)
  moreover have "b0 + b1 * x - np_mean ys = b1 * (x - (np_mean ys - b0) / b1)"
    using assms by (simp add: field_simps)
  ultimately have "(\<Sum>y\<leftarrow>ys. (y - (b0 + b1 * x))\<^sup>2) - (\<Sum>y\<leftarrow>ys. (y - np_mean ys)\<^sup>2)
      = n * b1\<^sup>2 * (x - (np_mean ys - b0) / b1)\<^sup>2"
    by (simp add: power_mult_distrib)
  then show ?thesis
    unfolding nll_eq c n_def by (simp add: diff_divide_distrib[symmetric])
qed

text \<open>
  Claim C4. For a nonempty batch of scalar observations, a slope \<open>\<beta>\<^sub>1 \<noteq> 0\<close> and any noise
  variance \<open>\<sigma>\<^sup>2 > 0\<close>, the value \<open>(mean(y) - \<beta>\<^sub>0) / \<beta>\<^sub>1\<close> that
  \<open>LinearMaximumLikelihoodAgent.infer_state\<close> stores is the unique minimizer over \<open>x\<close> of the
  negative Gaussian log-likelihood \<open>\<Sum>\<^sub>i (y\<^sub>i - (\<beta>\<^sub>0 + \<beta>\<^sub>1 x))\<^sup>2 / (2 \<sigma>\<^sup>2)\<close>; the stored value is
  computed without the variance, so it is the same for every \<open>\<sigma>\<^sup>2\<close>.
\<close>

theorem mle_infer_state_unique_minimizer:
  assumes "ys \<noteq> []" and "beta_1 (mle_agent_params self) \<noteq> 0" and "0 < var"
  shows "\<exists>xhat. mle_posterior_mode (mle_infer_state self ys) = Some xhat
           \<and> xhat = (np_mean ys - beta_0 (mle_agent_params self)) / beta_1 (mle_agent_params self)
           \<and> (\<forall>x. x \<noteq> xhat \<longrightarrow>
                 neg_log_likelihood_spec var (beta_0 (mle_agent_params self)) (beta_1 (mle_agent_params self)) ys xhat
               < neg_log_likelihood_spec var (beta_0 (mle_agent_params self)) (beta_1 (mle_agent_params self)) ys x)"
proof -
  let ?b0 = "beta_0 (mle_agent_params self)" and ?b1 = "beta_1 (mle_agent_params self)"
  let ?xh = "(np_mean ys - ?b0) / ?b1"
  have "neg_log_likelihood_spec var ?b0 ?b1 ys ?xh < neg_log_likelihood_spec var ?b0 ?b1 ys x" if "x \<noteq> ?xh" for x
  proof -
    have "0 < real (length ys) * ?b1\<^sup>2 * (x - ?xh)\<^sup>2 / (2 * var)"
      using assms that by simp
    then show ?thesis using nll_diff[OF assms(1,2), of var ?b0 x] by linarith
  qed
  then show ?thesis by (simp add: mle_infer_state_def)
qed

theorem mle_infer_state_unique_minimizer_witness:
  "mle_posterior_mode (mle_infer_state
      (LinearMaximumLikelihoodAgent_init \<lparr>beta_0 = 3, beta_1 = 2\<rparr>) [7]) = Some 2
   \<and> neg_log_likelihood_spec 1 3 2 [7] 2 < neg_log_likelihood_spec 1 3 2 [7] 5
   \<and> neg_log_likelihood_spec 4 3 2 [7] 2 < neg_log_likelihood_spec 4 3 2 [7] 5"
  using mle_infer_state_unique_minimizer[of "[7]" "LinearMaximumLikelihoodAgent_init \<lparr>beta_0 = 3, beta_1 = 2\<rparr>" 1]
        mle_infer_state_unique_minimizer[of "[7]" "LinearMaximumLikelihoodAgent_init \<lparr>beta_0 = 3, beta_1 = 2\<rparr>" 4]
  by (simp add: LinearMaximumLikelihoodAgent_init_def mle_infer_state_def np_mean_def)

lemma blend_between:
  fixes w t m :: real
  assumes w: "0 < w" and ne: "m \<noteq> t"
  shows "(t < (w * t + m) / (w + 1) \<and> (w * t + m) / (w + 1) < m)
       \<or> (m < (w * t + m) / (w + 1) \<and> (w * t + m) / (w + 1) < t)"
proof -
  have q: "0 < w + 1" using w by simp
  have a: "(w * t + m) / (w + 1) - t = (m - t) / (w + 1)"
    using q by (simp add: field_simps)
  have b: "m - (w * t + m) / (w + 1) = w * ((m - t) / (w + 1))"
    using q by (simp add: field_simps)
  show ?thesis
  proof (cases "t < m")
    case True
    then have d: "0 < (m - t) / (w + 1)" using q by simp
    then have "0 < w * ((m - t) / (w + 1))" using w by (rule mult_pos_pos[rotated])
    with d a b show ?thesis by linarith
  next
    case False
    with ne have "m - t < 0" by simp
    then have d: "(m - t) / (w + 1) < 0" using q by (simp add: divide_neg_pos)
    then have "w * ((m - t) / (w + 1)) < 0" using w by (rule mult_pos_neg[rotated])
    with d a b show ?thesis by linarith
  qed
qed

text \<open>
  Claim C3. For a nonempty batch of scalar observations and \<open>\<beta>\<^sub>1 \<noteq> 0\<close>,
  \<open>LinearMaximumAprioriAgent.infer_state\<close> stores
  \<open>x\<^sub>M\<^sub>A\<^sub>P = (\<beta>\<^sub>1 (mean(y) - \<beta>\<^sub>0) + m\<^sub>x) / (\<beta>\<^sub>1\<^sup>2 + 1)\<close>; when \<open>m\<^sub>x\<close> differs from
  \<open>x\<^sub>M\<^sub>L\<^sub>E = (mean(y) - \<beta>\<^sub>0) / \<beta>\<^sub>1\<close> the stored value lies strictly between \<open>x\<^sub>M\<^sub>L\<^sub>E\<close> and
  \<open>m\<^sub>x\<close>; and \<open>\<beta>\<^sub>0 = 3\<close>, \<open>\<beta>\<^sub>1 = 2\<close>, \<open>m\<^sub>x = 4\<close> with the single sample \<open>y = 7\<close> give \<open>2.4\<close>.
\<close>

theorem map_infer_state_blend:
  assumes "ys \<noteq> []" and "beta_1 (map_agent_params self) \<noteq> 0"
  shows "\<exists>xmap. map_posterior_mode (map_infer_state self ys) = Some xmap
      \<and> xmap = (beta_1 (map_agent_params self) * (np_mean ys - beta_0 (map_agent_params self))
                 + m_x (map_agent_params self)) / ((beta_1 (map_agent_params self))\<^sup>2 + 1)
      \<and> (let xmle = (np_mean ys - beta_0 (map_agent_params self)) / beta_1 (map_agent_params self);
              m = m_x (map_agent_params self)
          in m \<noteq> xmle \<longrightarrow> (xmle < xmap \<and> xmap < m) \<or> (m < xmap \<and> xmap < xmle))
      \<and> map_posterior_mode (map_infer_state
            (LinearMaximumAprioriAgent_init \<lparr>beta_0 = 3, beta_1 = 2, m_x = 4\<rparr>) [7]) = Some (24 / 10)"
proof -
  let ?b0 = "beta_0 (map_agent_params self)" and ?b1 = "beta_1 (map_agent_params self)"
  let ?m = "m_x (map_agent_params self)"
  let ?xmle = "(np_mean ys - ?b0) / ?b1"
  let ?xmap = "(?b1 * (np_mean ys - ?b0) + ?m) / (?b1\<^sup>2 + 1)"
  have b1sq: "0 < ?b1\<^sup>2" using assms(2) by simp
  have num: "?b1 * (np_mean ys - ?b0) = ?b1\<^sup>2 * ?xmle"
    using assms(2) by (simp add: power2_eq_square)
  have between: "(?xmle < ?xmap \<and> ?xmap < ?m) \<or> (?m < ?xmap \<and> ?xmap < ?xmle)" if ne: "?m \<noteq> ?xmle"
    unfolding num by (rule blend_between[OF b1sq ne])
  have example: "map_posterior_mode (map_infer_state
            (LinearMaximumAprioriAgent_init \<lparr>beta_0 = 3, beta_1 = 2, m_x = 4\<rparr>) [7]) = Some (24 / 10)"
    by (simp add: map_infer_state_def LinearMaximumAprioriAgent_init_def np_mean_def)
  show ?thesis
    using between example by (simp add: map_infer_state_def Let_def)
qed

theorem map_infer_state_blend_witness:
  "map_posterior_mode (map_infer_state
      (LinearMaximumAprioriAgent_init \<lparr>beta_0 = 3, beta_1 = 2, m_x = 4\<rparr>) [7, 7]) = Some (12 / 5)
   \<and> (7 - 3) / 2 < (12 / 5 :: real) \<and> (12 / 5 :: real) < 4"
  using map_infer_state_blend[of "[7, 7]" "LinearMaximumAprioriAgent_init \<lparr>beta_0 = 3, beta_1 = 2, m_x = 4\<rparr>"]
  by (simp add: LinearMaximumAprioriAgent_init_def map_infer_state_def np_mean_def)

section \<open>Verification of the grid posterior\<close>

lemma np_max_Max: "xs \<noteq> [] \<Longrightarrow> np_max xs = Inr (Max (set xs))"
  by (cases xs) (simp_all add: np_max_def Max.set_eq_fold[symmetric])

lemma generative_model_fields:
  assumes "generative_model self y gf = (self1, lgm)"
  shows "\<exists>ll lp. log_likelihood self1 = Some ll \<and> log_prior self1 = Some lp
           \<and> length ll = length gf \<and> length lp = length (x_range (exact_agent_params self))
           \<and> lgm = map2 (+) ll lp
           \<and> exact_agent_params self1 = exact_agent_params self
           \<and> (\<forall>i<length gf. ll ! i = (\<Sum>yi\<leftarrow>y. ln (norm_pdf yi (gf ! i) (std_y (exact_agent_params self)))))
           \<and> (\<forall>i<length (x_range (exact_agent_params self)).
                  lp ! i = ln (norm_pdf (x_range (exact_agent_params self) ! i)
                                 (m_x (exact_agent_params self)) (s_x (exact_agent_params self))))"
  using assms by (auto simp: generative_model_def Let_def sum_axis0_def comp_def)

lemma infer_state_result:
  assumes "x_range (exact_agent_params self) \<noteq> []"
  shows "\<exists>self' ll lp. infer_state self y = (None, self')
          \<and> log_likelihood self' = Some ll \<and> log_prior self' = Some lp
          \<and> length ll = length (x_range (exact_agent_params self))
          \<and> length lp = length (x_range (exact_agent_params self))
          \<and> log_gen_model self' = Some (map2 (+) ll lp)
          \<and> posterior self' = Some (map (\<lambda>l. exp (l - Max (set (map2 (+) ll lp)))) (map2 (+) ll lp))
          \<and> (\<forall>i<length (x_range (exact_agent_params self)).
                 ll ! i = (\<Sum>yi\<leftarrow>y. ln (norm_pdf yi
                     (beta_1 (exact_agent_params self) * x_range (exact_agent_params self) ! i
                        + beta_0 (exact_agent_params self)) (std_y (exact_agent_params self))))
               \<and> lp ! i = ln (norm_pdf (x_range (exact_agent_params self) ! i)
                                 (m_x (exact_agent_params self)) (s_x (exact_agent_params self))))"
proof -
  let ?gf = "gm self (x_range (exact_agent_params self))"
  obtain self1 lgm where g: "generative_model self y ?gf = (self1, lgm)"
    by (cases "generative_model self y ?gf")
  from generative_model_fields[OF g] obtain ll lp where
    f: "log_likelihood self1 = Some ll" "log_prior self1 = Some lp"
       "length ll = length ?gf" "length lp = length (x_range (exact_agent_params self))"
       "lgm = map2 (+) ll lp"
       "\<forall>i<length ?gf. ll ! i = (\<Sum>yi\<leftarrow>y. ln (norm_pdf yi (?gf ! i) (std_y (exact_agent_params self))))"
       "\<forall>i<length (x_range (exact_agent_params self)).
                  lp ! i = ln (norm_pdf (x_range (exact_agent_params self) ! i)
                                 (m_x (exact_agent_params self)) (s_x (exact_agent_params self)))"
    by blast
  have gfi: "?gf ! i = beta_1 (exact_agent_params self) * x_range (exact_agent_params self) ! i
                        + beta_0 (exact_agent_params self)"
    if "i < length (x_range (exact_agent_params self))" for i
    using that by (simp add: gm_def)
  have len: "length ?gf = length (x_range (exact_agent_params self))" by (simp add: gm_def)
  have ne: "lgm \<noteq> []" using f len assms by (auto simp: zip_eq_Nil_iff)
  show ?thesis
    using g f len gfi np_max_Max[OF ne] by (simp add: infer_state_def Let_def)
qed

text \<open>
  Claim C1. For every observation batch \<open>y\<close>, \<open>ExactLinearAgent.infer_state\<close> stores the
  log-likelihood \<open>log_likelihood[i] = \<Sum>\<^sub>n ln N(y\<^sub>n; \<beta>\<^sub>1 x\<^sub>i + \<beta>\<^sub>0, std_y)\<close> and the log-prior
  \<open>log_prior[i] = ln N(x\<^sub>i; m\<^sub>x, s\<^sub>x)\<close>, both indexed over the grid \<open>x_range\<close>, and the unnormalised
  posterior
  \<open>posterior[i] = exp (log_likelihood[i] + log_prior[i] - max\<^sub>j (log_likelihood[j] + log_prior[j]))\<close>
  at every grid index \<open>i\<close>. The grid is not empty and both scales are positive.
\<close>

theorem infer_state_posterior:
  assumes "x_range (exact_agent_params self) \<noteq> []"
      and "0 < std_y (exact_agent_params self)" and "0 < s_x (exact_agent_params self)"
      and "i < length (x_range (exact_agent_params self))"
  shows "\<exists>self' ll lp post. infer_state self y = (None, self')
          \<and> log_likelihood self' = Some ll \<and> log_prior self' = Some lp \<and> posterior self' = Some post
          \<and> ll = map (\<lambda>x. \<Sum>yi\<leftarrow>y. ln (norm_pdf yi
                        (beta_1 (exact_agent_params self) * x + beta_0 (exact_agent_params self))
                        (std_y (exact_agent_params self))))
                     (x_range (exact_agent_params self))
          \<and> lp = map (\<lambda>x. ln (norm_pdf x (m_x (exact_agent_params self)) (s_x (exact_agent_params self))))
                     (x_range (exact_agent_params self))
          \<and> length post = length (x_range (exact_agent_params self))
          \<and> post ! i = exp (ll ! i + lp ! i
                  - Max ((\<lambda>j. ll ! j + lp ! j) ` {..<length (x_range (exact_agent_params self))}))"
proof -
  let ?p = "exact_agent_params self"
  from infer_state_result[OF assms(1), of y] obtain self' ll lp where
    r: "infer_state self y = (None, self')" "log_likelihood self' = Some ll" "log_prior self' = Some lp"
       "length ll = length (x_range ?p)"
       "length lp = length (x_range ?p)"
       "posterior self' = Some (map (\<lambda>l. exp (l - Max (set (map2 (+) ll lp)))) (map2 (+) ll lp))"
       "\<forall>i<length (x_range ?p).
           ll ! i = (\<Sum>yi\<leftarrow>y. ln (norm_pdf yi (beta_1 ?p * x_range ?p ! i + beta_0 ?p) (std_y ?p)))
         \<and> lp ! i = ln (norm_pdf (x_range ?p ! i) (m_x ?p) (s_x ?p))"
    by blast
  let ?n = "length (x_range ?p)"
  have ll: "ll = map (\<lambda>x. \<Sum>yi\<leftarrow>y. ln (norm_pdf yi (beta_1 ?p * x + beta_0 ?p) (std_y ?p))) (x_range ?p)"
    using r(4,7) by (intro nth_equalityI) simp_all
  have lp: "lp = map (\<lambda>x. ln (norm_pdf x (m_x ?p) (s_x ?p))) (x_range ?p)"
    using r(5,7) by (intro nth_equalityI) simp_all
  have "set (map2 (+) ll lp) = (\<lambda>j. ll ! j + lp ! j) ` {..<?n}"
  proof -
    have "map2 (+) ll lp = map (\<lambda>j. ll ! j + lp ! j) [0..<?n]"
      using r(4,5) by (intro nth_equalityI) simp_all
    then show ?thesis by (simp add: atLeast0LessThan)
  qed
  then have post: "map (\<lambda>l. exp (l - Max (set (map2 (+) ll lp)))) (map2 (+) ll lp) ! i
      = exp (ll ! i + lp ! i - Max ((\<lambda>j. ll ! j + lp ! j) ` {..<?n}))"
    using r(4,5) assms(4) by simp
  have len: "length (map (\<lambda>l. exp (l - Max (set (map2 (+) ll lp)))) (map2 (+) ll lp)) = ?n"
    using r(4,5) by simp
  show ?thesis
    using r(1,2,3,6) ll lp post len by blast
qed

theorem infer_state_posterior_witness:
  "\<exists>self' ll lp post. infer_state demo_agent [7, 7] = (None, self')
          \<and> log_likelihood self' = Some ll \<and> log_prior self' = Some lp \<and> posterior self' = Some post
          \<and> ll = map (\<lambda>x. \<Sum>yi\<leftarrow>[7, 7]. ln (norm_pdf yi (2 * x + 3) (1/4))) [1, 2, 3]
          \<and> lp = map (\<lambda>x. ln (norm_pdf x 4 (1/4))) [1, 2, 3]
          \<and> length post = 3
          \<and> post ! 1 = exp (ll ! 1 + lp ! 1 - Max ((\<lambda>j. ll ! j + lp ! j) ` {..<3}))"
  using infer_state_posterior[of demo_agent 1 "[7, 7]"]
  by (simp add: demo_agent_def ExactLinearAgent_init_def numeral_3_eq_3)

text \<open>
  Claim C2. Whenever the log generative model over the grid has a finite maximum (a nonempty
  grid and positive scales), the posterior that \<open>ExactLinearAgent.infer_state\<close> stores has
  maximum exactly \<open>1\<close>.
\<close>

theorem infer_state_posterior_max_one:
  assumes "x_range (exact_agent_params self) \<noteq> []"
      and "0 < std_y (exact_agent_params self)" and "0 < s_x (exact_agent_params self)"
  shows "\<exists>self' post. infer_state self y = (None, self') \<and> posterior self' = Some post
          \<and> np_max post = Inr 1"
proof -
  from infer_state_result[OF assms(1), of y] obtain self' ll lp where
    r: "infer_state self y = (None, self')"
       "length ll = length (x_range (exact_agent_params self))"
       "length lp = length (x_range (exact_agent_params self))"
       "posterior self' = Some (map (\<lambda>l. exp (l - Max (set (map2 (+) ll lp)))) (map2 (+) ll lp))"
    by blast
  define lgm where "lgm = map2 (+) ll lp"
  define M where "M = Max (set lgm)"
  define post where "post = map (\<lambda>l. exp (l - M)) lgm"
  have ne: "lgm \<noteq> []" using r(2,3) assms(1) by (auto simp: lgm_def zip_eq_Nil_iff)
  have mono: "mono (\<lambda>l::real. exp (l - M))" by (simp add: mono_def)
  have "Max (set post) = Max ((\<lambda>l. exp (l - M)) ` set lgm)" by (simp add: post_def)
  also have "\<dots> = exp (M - M)"
    using mono_Max_commute[OF mono, of "set lgm"] ne by (simp add: M_def)
  finally have "Max (set post) = 1" by simp
  moreover have "post \<noteq> []" using ne by (simp add: post_def)
  ultimately have "np_max post = Inr 1" using np_max_Max[of post] by simp
  then show ?thesis using r by (simp add: post_def M_def lgm_def)
qed

theorem infer_state_posterior_max_one_witness:
  "\<exists>self' post. infer_state demo_agent [7, 7] = (None, self') \<and> posterior self' = Some post
          \<and> np_max post = Inr 1"
  using infer_state_posterior_max_one[of demo_agent "[7, 7]"]
  by (simp add: demo_agent_def ExactLinearAgent_init_def)

section \<open>Verification of the regression agent and the environments\<close>

text \<open>
  Claim C10. In the notebook of \<open>src/unnamed/part_000\<close>,
  \<open>MultipleLinearRegressionAgent.learn_parameters\<close> calls the module-level one-parameter
  function \<open>build_data_matrix\<close> with two arguments; for every input the call raises
  \<open>TypeError\<close> before any estimation, and the agent is left as it was: \<open>theta\<close> is not
  assigned.
\<close>

theorem learn_parameters_type_error:
  "learn_parameters pinv self X_star y = (Some TypeError, self)
   \<and> theta (snd (learn_parameters pinv MultipleLinearRegressionAgent_init X_star y)) = None"
  by (simp add: learn_parameters_def build_data_matrix_def MultipleLinearRegressionAgent_init_def)

lemma dot_add_right:
  "length u = length v \<Longrightarrow> dot r (vec_add u v) = dot r u + dot r v"
proof (induction r arbitrary: u v)
  case Nil
  then show ?case by (simp add: dot_def)
next
  case (Cons a r)
  show ?case
  proof (cases u)
    case Nil
    with Cons.prems show ?thesis by (simp add: dot_def vec_add_def)
  next
    case (Cons b u')
    with Cons.prems obtain c v' where v: "v = c # v'" "length u' = length v'"
      by (cases v) auto
    have "dot r (vec_add u' v') = dot r u' + dot r v'" by (rule Cons.IH[OF v(2)])
    then show ?thesis using Cons v
      by (simp add: dot_def vec_add_def algebra_simps)
  qed
qed

lemma matvec_add_right:
  "length u = length v \<Longrightarrow> matvec A (vec_add u v) = vec_add (matvec A u) (matvec A v)"
  by (induction A) (simp_all add: matvec_def vec_add_def dot_add_right[unfolded vec_add_def])

lemma add_offset_vec_add:
  "add_offset (vec_add a b) off = vec_add (add_offset a off) b"
proof (cases off)
  case (Scalar s)
  have "map (\<lambda>a. a + s) (map2 (+) a b) = map2 (+) (map (\<lambda>a. a + s) a) b"
  proof (induction a arbitrary: b)
    case Nil
    then show ?case by simp
  next
    case (Cons x a)
    then show ?case by (cases b) simp_all
  qed
  then show ?thesis unfolding Scalar by (simp add: vec_add_def)
next
  case (Vector w)
  have "map2 (+) (map2 (+) a b) w = map2 (+) (map2 (+) a w) b"
  proof (induction a arbitrary: b w)
    case Nil
    then show ?case by simp
  next
    case (Cons x a)
    then show ?case by (cases b; cases w) simp_all
  qed
  then show ?thesis unfolding Vector by (simp add: vec_add_def)
qed

lemma vec_add_assoc: "vec_add (vec_add a b) c = vec_add a (vec_add b c)"
  unfolding vec_add_def
proof (induction a arbitrary: b c)
  case Nil
  then show ?case by simp
next
  case (Cons x a)
  then show ?case by (cases b; cases c) simp_all
qed

lemma np_add_same_length: "length u = length v \<Longrightarrow> np_add u v = Inr (vec_add u v)"
  by (simp add: np_add_def vec_add_def)

lemma np_matvec_shaped: "is_mat r c A \<Longrightarrow> length v = c \<Longrightarrow> np_matvec A v = Inr (matvec A v)"
  by (simp add: np_matvec_def is_mat_def)

lemma length_add_offset:
  "(case b of Scalar _ \<Rightarrow> True | Vector w \<Rightarrow> length w = length v) \<Longrightarrow> length (add_offset v b) = length v"
  by (cases b) (simp_all add: vec_add_def)

lemma np_add_offset_shaped:
  "(case b of Scalar _ \<Rightarrow> True | Vector w \<Rightarrow> length w = length v)
     \<Longrightarrow> np_add_offset v b = Inr (add_offset v b)"
  by (cases b) (simp_all add: np_add_same_length)

lemma generating_function_shaped:
  assumes "is_mat (env_D (static_env_params self)) (env_C (static_env_params self))
             (Theta_star (static_env_params self))"
      and "length v = env_C (static_env_params self)"
      and "case b_star (static_env_params self) of Scalar _ \<Rightarrow> True
             | Vector w \<Rightarrow> length w = env_D (static_env_params self)"
  shows "generating_function self v
           = Inr (add_offset (matvec (Theta_star (static_env_params self)) v) (b_star (static_env_params self)))"
    and "length (add_offset (matvec (Theta_star (static_env_params self)) v) (b_star (static_env_params self)))
           = env_D (static_env_params self)"
proof -
  let ?p = "static_env_params self"
  have len: "length (matvec (Theta_star ?p) v) = env_D ?p"
    using assms(1) by (simp add: matvec_def is_mat_def)
  have off: "case b_star ?p of Scalar _ \<Rightarrow> True | Vector w \<Rightarrow> length w = length (matvec (Theta_star ?p) v)"
    using assms(3) len by (simp split: offset.splits)
  show "generating_function self v = Inr (add_offset (matvec (Theta_star ?p) v) (b_star ?p))"
    unfolding generating_function_def np_matvec_shaped[OF assms(1,2)]
    by (simp add: ebind_def np_add_offset_shaped[OF off])
  show "length (add_offset (matvec (Theta_star ?p) v) (b_star ?p)) = env_D ?p"
    using length_add_offset[OF off] len by simp
qed

lemma affine_noisy_state:
  assumes "length x_star = length x_noise"
  shows "vec_add (add_offset (matvec A (vec_add x_star x_noise)) b) y_noise
       = vec_add (add_offset (matvec A x_star) b) (vec_add (matvec A x_noise) y_noise)"
  unfolding matvec_add_right[OF assms] add_offset_vec_add vec_add_assoc ..

text \<open>
  Claim C9, as amended. \<open>generate\<close> makes two draws with scipy's multivariate normal sampler,
  first \<open>\<epsilon>\<^sub>x = rvs(mean = zeros(C), cov = cov_x_star)\<close> and then
  \<open>\<epsilon>\<^sub>y = rvs(mean = zeros(D), cov = cov_y_star)\<close>. When the draws have the lengths \<open>C\<close> and \<open>D\<close>,
  the state has length \<open>C\<close>, \<open>Theta_star\<close> is \<open>D \<times> C\<close> and \<open>b_star\<close> is a scalar or a vector of
  length \<open>D\<close>, it perturbs the state before it applies the generating function and then
  adds the second draw: \<open>y = f(x + \<epsilon>\<^sub>x; \<theta>) + \<epsilon>\<^sub>y = f(x; \<theta>) + (\<Theta> \<epsilon>\<^sub>x + \<epsilon>\<^sub>y)\<close> with
  \<open>f(x; \<theta>) = \<Theta> x + b\<close>. The environment of part_001 is left unchanged; the one of notebook
  ch3/6 stores \<open>x + \<epsilon>\<^sub>x\<close> in \<open>self.x_star_noise\<close> and changes nothing else. The regression
  environment, for a state one shorter than \<open>theta_star\<close>, returns \<open>[1, x] \<cdot> \<theta> + \<epsilon>\<close> with the single
  draw \<open>\<epsilon> = np.random.normal(loc = 0, scale = y_star_std)\<close> and is left unchanged.
\<close>

theorem generate_noisy_state:
  fixes self :: static_env and self_em :: static_env_em and self_reg :: reg_env
  assumes params: "static_env_params self_em = static_env_params self"
      and draw_x: "rvs (replicate (env_C (static_env_params self)) 0) (cov_x_star (static_env_params self)) g
                     = (Inr eps_x, g1)"
      and draw_y: "rvs (replicate (env_D (static_env_params self)) 0) (cov_y_star (static_env_params self)) g1
                     = (Inr eps_y, g2)"
      and lens: "length eps_x = env_C (static_env_params self)" "length eps_y = env_D (static_env_params self)"
      and shapes: "length x_star = env_C (static_env_params self)"
                  "is_mat (env_D (static_env_params self)) (env_C (static_env_params self))
                     (Theta_star (static_env_params self))"
                  "case b_star (static_env_params self) of Scalar _ \<Rightarrow> True
                     | Vector w \<Rightarrow> length w = env_D (static_env_params self)"
      and draw_reg: "normal 0 (y_star_std (reg_env_params self_reg)) h = (Inr eps, h1)"
      and shape_reg: "Suc (length x_reg) = length (theta_star (reg_env_params self_reg))"
  shows "generate rvs self x_star g
           = (Inr (vec_add (add_offset (matvec (Theta_star (static_env_params self)) (vec_add x_star eps_x))
                                       (b_star (static_env_params self))) eps_y), self, g2)
       \<and> generate_em rvs self_em x_star g
           = (Inr (vec_add (add_offset (matvec (Theta_star (static_env_params self)) (vec_add x_star eps_x))
                                       (b_star (static_env_params self))) eps_y),
              self_em\<lparr>x_star_noise := Some (vec_add x_star eps_x)\<rparr>, g2)
       \<and> vec_add (add_offset (matvec (Theta_star (static_env_params self)) (vec_add x_star eps_x))
                             (b_star (static_env_params self))) eps_y
           = vec_add (add_offset (matvec (Theta_star (static_env_params self)) x_star)
                                 (b_star (static_env_params self)))
               (vec_add (matvec (Theta_star (static_env_params self)) eps_x) eps_y)
       \<and> reg_generate normal self_reg x_reg h
           = (Inr (dot (1 # x_reg) (theta_star (reg_env_params self_reg)) + eps), self_reg, h1)"
proof -
  let ?p = "static_env_params self"
  let ?xn = "vec_add x_star eps_x"
  let ?f = "add_offset (matvec (Theta_star ?p) ?xn) (b_star ?p)"
  have xe: "length x_star = length eps_x" using lens(1) shapes(1) by simp
  have add: "np_add x_star eps_x = Inr ?xn" by (rule np_add_same_length[OF xe])
  have lxn: "length ?xn = env_C ?p" using xe shapes(1) by (simp add: vec_add_def)
  note gf = generating_function_shaped[OF shapes(2) lxn shapes(3)]
  have fin: "np_add ?f eps_y = Inr (vec_add ?f eps_y)"
    using gf(2) lens(2) by (intro np_add_same_length) simp
  have g1: "generate rvs self x_star g = (Inr (vec_add ?f eps_y), self, g2)"
    by (simp add: generate_def noise_def Let_def draw_x draw_y add gf(1) fin ebind_def)
  let ?s1 = "self_em\<lparr>x_star_noise := Some ?xn\<rparr>"
  have p1: "static_env_params ?s1 = ?p" using params by simp
  have gf_em: "generating_function ?s1 ?xn = Inr ?f"
    using generating_function_shaped(1)[of ?s1 ?xn] shapes(2,3) lxn unfolding p1 by simp
  have g2: "generate_em rvs self_em x_star g = (Inr (vec_add ?f eps_y), ?s1, g2)"
    by (simp add: generate_em_def noise_def Let_def params draw_x draw_y add gf_em fin ebind_def)
  have lin: "vec_add ?f eps_y
           = vec_add (add_offset (matvec (Theta_star ?p) x_star) (b_star ?p))
               (vec_add (matvec (Theta_star ?p) eps_x) eps_y)"
    by (rule affine_noisy_state[OF xe])
  have g3: "reg_generate normal self_reg x_reg h
           = (Inr (dot (1 # x_reg) (theta_star (reg_env_params self_reg)) + eps), self_reg, h1)"
    using shape_reg draw_reg
    by (simp add: reg_generate_def reg_generating_function_def reg_noise_def np_inner_def Let_def)
  from g1 g2 lin g3 show ?thesis by blast
qed

theorem generate_noisy_state_witness:
  "generate tape_rvs demo_env [1, 2] [[1, -1], [0, 1, 2]] = (Inr [5, 1, 8], demo_env, [])
   \<and> generate_em tape_rvs demo_env_em [1, 2] [[1, -1], [0, 1, 2]]
        = (Inr [5, 1, 8], demo_env_em\<lparr>x_star_noise := Some [2, 1]\<rparr>, [])
   \<and> vec_add (add_offset (matvec [[1, 2], [0, 1], [3, 0]] [1, 2]) (Vector [1, -1, 0]))
        (vec_add (matvec [[1, 2], [0, 1], [3, 0]] [1, -1]) [0, 1, 2]) = [5, 1, 8]
   \<and> reg_generate tape_normal demo_reg_env [2] [1/2] = (Inr (15/2), demo_reg_env, [])"
  using generate_noisy_state[of demo_env_em demo_env tape_rvs "[[1, -1], [0, 1, 2]]" "[1, -1]" "[[0, 1, 2]]"
      "[0, 1, 2]" "[]" "[1, 2]" tape_normal demo_reg_env "[1/2]" "1/2" "[]" "[2]"]
  by (simp add: demo_env_def demo_env_em_def demo_env_params_def demo_reg_env_def tape_rvs_def
      tape_normal_def is_mat_def matvec_def dot_def vec_add_def)

text \<open>
  In the one-dimensional environment with identity mixing, with the state \<open>[0]\<close> and the
  draws \<open>[1]\<close> and then \<open>[0]\<close>, the observation is \<open>[1]\<close>, not \<open>f([0]) + [0] = [0]\<close>; and the
  call changes the environment of notebook ch3/6.
\<close>

theorem generate_single_noise_counterexample:
  "fst (generate tape_rvs unit_env [0] [[1], [0]]) = Inr [1]
   \<and> ebind (generating_function unit_env [0]) (\<lambda>f. np_add f [0]) = Inr [0]
   \<and> fst (generate tape_rvs unit_env [0] [[1], [0]])
        \<noteq> ebind (generating_function unit_env [0]) (\<lambda>f. np_add f [0])
   \<and> x_star_noise unit_env_em = None
   \<and> x_star_noise (fst (snd (generate_em tape_rvs unit_env_em [0] [[1], [0]]))) = Some [1]
   \<and> fst (snd (generate_em tape_rvs unit_env_em [0] [[1], [0]])) \<noteq> unit_env_em"
  by (simp add: generate_def generate_em_def noise_def tape_rvs_def unit_env_def unit_env_em_def
      unit_env_params_def generating_function_def np_matvec_def np_add_def ebind_def matvec_def
      dot_def Let_def)

section \<open>Verification of the linear-Gaussian posterior\<close>

lemma inv2_spec: "inv_spec inv2"
  unfolding inv_spec_def
proof (intro allI impI)
  fix A B assume "inv2 A = Inr B"
  then show "inverse_of A B"
  proof (induction A rule: inv2.induct)
    case (1 a)
    then show ?case
      by (auto simp: inverse_of_def is_mat_def matmul_def eye_def dot_def col_def ncols_def split: if_splits)
  next
    case (2 a b c d)
    then have det: "a * d - b * c \<noteq> 0" and B: "B = [[d / (a * d - b * c), - b / (a * d - b * c)],
                [- c / (a * d - b * c), a / (a * d - b * c)]]"
      by (auto split: if_splits)
    have u: "[0..<2] = [0, Suc 0]" by (simp add: upt_rec)
    have e1: "a * d / (a * d - b * c) - b * c / (a * d - b * c) = 1"
      using det by (simp add: diff_divide_distrib[symmetric])
    have e2: "d * a / (a * d - b * c) - b * c / (a * d - b * c) = 1"
      using e1 by (simp add: mult.commute)
    have e3: "a * d / (a * d - b * c) - c * b / (a * d - b * c) = 1"
      using e1 by (simp add: mult.commute)
    show ?case
      unfolding B inverse_of_def
      using e1 e2 e3
      by (simp add: is_mat_def matmul_def eye_def dot_def col_def ncols_def u algebra_simps)
  qed simp_all
qed

lemma mean_axis0_nth:
  assumes "is_mat (length y) n y" "y \<noteq> []" "k < n"
  shows "mean_axis0 y ! k = (\<Sum>i<length y. y ! i ! k) / real (length y)"
proof -
  have nc: "ncols y = n" using assms(1,2) by (cases y) (auto simp: ncols_def is_mat_def)
  have "sum_list (col y k) = (\<Sum>i<length y. y ! i ! k)"
    by (simp add: col_def sum_list_sum_nth atLeast0LessThan)
  then show ?thesis using assms(3) nc by (simp add: mean_axis0_def)
qed

text \<open>
  Claim C5. For every batch of \<open>N\<close> observation vectors \<open>y\<close> (the \<open>N\<close> of the parameters) and
  parameters for which the three inversions succeed, \<open>FactorAnalysisAgent.infer_states\<close>
  sets the posterior covariance to \<open>(inv(cov_x) + N inv(cov_y))\<^sup>-\<^sup>1\<close> and the posterior mean to
  \<open>cov_posterior @ (inv(cov_y) @ (N mean(y)) + inv(cov_x) @ mu_x)\<close>, where \<open>mean(y)\<close> is the
  sample mean across the \<open>N\<close> observations.
\<close>

theorem infer_states_posterior:
  assumes "inv_spec np_inv"
      and "np_inv (cov_x (fa_agent_params self)) = Inr Pi_x"
      and "np_inv (fa_cov_y (fa_agent_params self)) = Inr Pi_y"
      and "np_inv (mat_add Pi_x (mat_smul (of_int (fa_N (fa_agent_params self))) Pi_y)) = Inr P"
      and "fa_N (fa_agent_params self) = int (length y)" and "y \<noteq> []"
      and "is_mat (length y) n y" and "length (mu_x (fa_agent_params self)) = n"
  shows "cov_posterior (snd (infer_states np_inv mvn_pdf self y)) = Some P
       \<and> inverse_of (cov_x (fa_agent_params self)) Pi_x
       \<and> inverse_of (fa_cov_y (fa_agent_params self)) Pi_y
       \<and> inverse_of (mat_add Pi_x (mat_smul (real (length y)) Pi_y)) P
       \<and> mean_posterior (snd (infer_states np_inv mvn_pdf self y))
           = Some (matvec P (vec_add (matvec Pi_y (vec_smul (real (length y)) (mean_axis0 y)))
                                     (matvec Pi_x (mu_x (fa_agent_params self)))))
       \<and> length (mean_axis0 y) = n
       \<and> (\<forall>k<n. mean_axis0 y ! k = (\<Sum>i<length y. y ! i ! k) / real (length y))"
proof -
  have N: "(of_int (fa_N (fa_agent_params self)) :: real) = real (length y)"
    using assms(5) by simp
  have inv: "inverse_of (cov_x (fa_agent_params self)) Pi_x"
       "inverse_of (fa_cov_y (fa_agent_params self)) Pi_y"
       "inverse_of (mat_add Pi_x (mat_smul (real (length y)) Pi_y)) P"
    using assms(1-4) unfolding inv_spec_def N by blast+
  have nc: "ncols y = n" using assms(6,7) by (cases y) (auto simp: ncols_def is_mat_def)
  have len: "length (mean_axis0 y) = n" by (simp add: mean_axis0_def nc)
  have st: "cov_posterior (snd (infer_states np_inv mvn_pdf self y)) = Some P
       \<and> mean_posterior (snd (infer_states np_inv mvn_pdf self y))
           = Some (matvec P (vec_add (matvec Pi_y (vec_smul (real (length y)) (mean_axis0 y)))
                                     (matvec Pi_x (mu_x (fa_agent_params self)))))"
    using assms(2-4) unfolding N
    by (simp add: infer_states_def Let_def N split: sum.splits)
  show ?thesis
    using st inv len mean_axis0_nth[OF assms(7,6)] by simp
qed

theorem infer_states_posterior_witness:
  "cov_posterior (snd (infer_states inv2 (\<lambda>g m c. Inr []) demo_fa_agent [[1, 2], [3, 4]]))
     = Some [[1/4, 0], [0, 1/6]]
   \<and> mean_posterior (snd (infer_states inv2 (\<lambda>g m c. Inr []) demo_fa_agent [[1, 2], [3, 4]]))
     = Some [1, 2]
   \<and> mean_axis0 [[1, 2], [3, 4]] = [2, 3]"
proof -
  have u: "[0..<2] = [0, Suc 0]" by (simp add: upt_rec)
  show ?thesis
    using infer_states_posterior[OF inv2_spec, of demo_fa_agent "[[2, 0], [0, 2]]" "[[1, 0], [0, 2]]"
        "[[1/4, 0], [0, 1/6]]" "[[1, 2], [3, 4]]" 2 "\<lambda>g m c. Inr []"]
    by (simp add: demo_fa_agent_def FactorAnalysisAgent_init_def mat_add_def mat_smul_def is_mat_def
        matvec_def vec_add_def vec_smul_def dot_def mean_axis0_def col_def ncols_def u)
qed

section \<open>Sample count and the maximum a posteriori estimate\<close>













section \<open>Verification of the expectation-maximisation loop\<close>

lemma em_infer_states_Inr:
  assumes "em_infer_states np_inv gC s Y j = Inr s1"
  shows "\<exists>G. np_inv (mat_add (matmul (Theta s ! j) (mat_T (Theta s ! j))) (cov_y s ! j)) = Inr G
           \<and> j < length (Theta s) \<and> j < length (cov_y s)
           \<and> j < length (posterior_cov s) \<and> j < length (posterior_mean s)
           \<and> s1 = s\<lparr>posterior_mean_s := Some (matmul (matmul (mat_T (Theta s ! j)) G) Y),
                    posterior_cov := (posterior_cov s)
                       [j := mat_sub (eye gC) (matmul (matmul (mat_T (Theta s ! j)) G) (Theta s ! j))],
                    posterior_mean := (posterior_mean s)
                       [j := mean_axis1 (matmul (matmul (mat_T (Theta s ! j)) G) Y)]\<rparr>"
  using assms
  by (auto simp: em_infer_states_def ebind_def Let_def split: if_splits sum.splits)

lemma em_learn_parameters_Inr:
  assumes "em_learn_parameters np_inv gN s Y j = Inr s2"
  shows "\<exists>pms. posterior_mean_s s = Some pms \<and> j < length (posterior_cov s)
           \<and> (if j + 1 < J s
               then \<exists>Gi Sm. np_inv (mat_add (matmul pms (mat_T pms))
                                      (mat_smul (real gN) (posterior_cov s ! j))) = Inr Gi
                      \<and> S s = Some Sm \<and> j + 1 < length (Theta s) \<and> j + 1 < length (cov_y s)
                      \<and> s2 = s\<lparr>Theta := (Theta s)[j + 1 := matmul (matmul Y (mat_T pms)) Gi],
                               cov_y := (cov_y s)[j + 1 :=
                                   diag_of_vec (diag_of_mat (mat_sub Sm
                                     (mat_sdiv (matmul (matmul (matmul Y (mat_T pms)) Gi)
                                        (mat_T (matmul Y (mat_T pms)))) (real gN))))]\<rparr>
               else s2 = s)"
  using assms
  by (auto simp: em_learn_parameters_def ebind_def Let_def split: if_splits sum.splits option.splits)

lemma is_diagonal_diag_of_vec: "is_diagonal (diag_of_vec v)"
  by (simp add: is_diagonal_def diag_of_vec_def)

lemma em_iteration_spec_cong:
  assumes "em_iteration_spec np_inv gC gN Y s j"
      and "Theta s' ! j = Theta s ! j" "cov_y s' ! j = cov_y s ! j"
      and "posterior_mean s' ! j = posterior_mean s ! j" "posterior_cov s' ! j = posterior_cov s ! j"
      and "J s' = J s"
      and "j + 1 < J s \<Longrightarrow> Theta s' ! (j + 1) = Theta s ! (j + 1) \<and> cov_y s' ! (j + 1) = cov_y s ! (j + 1)"
      and "j + 1 = J s \<Longrightarrow> posterior_mean_s s' = posterior_mean_s s"
  shows "em_iteration_spec np_inv gC gN Y s' j"
  using assms unfolding em_iteration_spec_def Let_def
  by (cases "j + 1 < J s"; cases "j + 1 = J s") auto

lemma em_iteration_step:
  assumes E: "em_infer_states np_inv gC s Y j = Inr s1"
      and M: "em_learn_parameters np_inv gN s1 Y j = Inr s2"
      and S: "S s = Some (np_cov Y)"
      and I: "inv_spec np_inv"
  shows "em_iteration_spec np_inv gC gN Y s2 j"
    and "J s2 = J s" and "S s2 = S s"
    and "length (Theta s2) = length (Theta s)" and "length (cov_y s2) = length (cov_y s)"
    and "length (posterior_mean s2) = length (posterior_mean s)"
    and "length (posterior_cov s2) = length (posterior_cov s)"
    and "\<And>i. i \<noteq> j \<Longrightarrow> posterior_mean s2 ! i = posterior_mean s ! i \<and> posterior_cov s2 ! i = posterior_cov s ! i"
    and "\<And>i. i \<noteq> j + 1 \<Longrightarrow> Theta s2 ! i = Theta s ! i \<and> cov_y s2 ! i = cov_y s ! i"
proof -
  from em_infer_states_Inr[OF E] obtain G where
    G: "np_inv (mat_add (matmul (Theta s ! j) (mat_T (Theta s ! j))) (cov_y s ! j)) = Inr G"
    and b: "j < length (Theta s)" "j < length (cov_y s)" "j < length (posterior_cov s)"
           "j < length (posterior_mean s)"
    and s1: "s1 = s\<lparr>posterior_mean_s := Some (matmul (matmul (mat_T (Theta s ! j)) G) Y),
                    posterior_cov := (posterior_cov s)
                       [j := mat_sub (eye gC) (matmul (matmul (mat_T (Theta s ! j)) G) (Theta s ! j))],
                    posterior_mean := (posterior_mean s)
                       [j := mean_axis1 (matmul (matmul (mat_T (Theta s ! j)) G) Y)]\<rparr>"
    by blast
  have Ginv: "inverse_of (mat_add (matmul (Theta s ! j) (mat_T (Theta s ! j))) (cov_y s ! j)) G"
    using I G unfolding inv_spec_def by blast
  define pms where "pms = matmul (matmul (mat_T (Theta s ! j)) G) Y"
  have p1: "posterior_mean_s s1 = Some pms" by (simp add: s1 pms_def)
  from em_learn_parameters_Inr[OF M] p1 have
    m: "if j + 1 < J s1
        then \<exists>Gi Sm. np_inv (mat_add (matmul pms (mat_T pms))
                                      (mat_smul (real gN) (posterior_cov s1 ! j))) = Inr Gi
                      \<and> S s1 = Some Sm \<and> j + 1 < length (Theta s1) \<and> j + 1 < length (cov_y s1)
                      \<and> s2 = s1\<lparr>Theta := (Theta s1)[j + 1 := matmul (matmul Y (mat_T pms)) Gi],
                               cov_y := (cov_y s1)[j + 1 :=
                                   diag_of_vec (diag_of_mat (mat_sub Sm
                                     (mat_sdiv (matmul (matmul (matmul Y (mat_T pms)) Gi)
                                        (mat_T (matmul Y (mat_T pms)))) (real gN))))]\<rparr>
        else s2 = s1"
    by auto
  show "em_iteration_spec np_inv gC gN Y s2 j"
  proof (cases "j + 1 < J s1")
    case True
    with m obtain Gi Sm where
      Gi: "np_inv (mat_add (matmul pms (mat_T pms)) (mat_smul (real gN) (posterior_cov s1 ! j))) = Inr Gi"
      and Sm: "S s1 = Some Sm" and b2: "j + 1 < length (Theta s1)" "j + 1 < length (cov_y s1)"
      and s2: "s2 = s1\<lparr>Theta := (Theta s1)[j + 1 := matmul (matmul Y (mat_T pms)) Gi],
                               cov_y := (cov_y s1)[j + 1 :=
                                   diag_of_vec (diag_of_mat (mat_sub Sm
                                     (mat_sdiv (matmul (matmul (matmul Y (mat_T pms)) Gi)
                                        (mat_T (matmul Y (mat_T pms)))) (real gN))))]\<rparr>"
      by auto
    have Sm': "Sm = np_cov Y" using Sm S by (simp add: s1)
    have Giinv: "inverse_of (mat_add (matmul pms (mat_T pms))
                    (mat_smul (real gN) (posterior_cov s1 ! j))) Gi"
      using I Gi unfolding inv_spec_def by blast
    show ?thesis
      unfolding em_iteration_spec_def Let_def
      using G Ginv Gi Giinv b b2 True
      by (intro exI[of _ G]) (simp add: s2 s1 pms_def Sm' is_diagonal_diag_of_vec)
  next
    case False
    with m have s2: "s2 = s1" by simp
    show ?thesis
      unfolding em_iteration_spec_def Let_def
      using G Ginv b False
      by (intro exI[of _ G]) (simp add: s2 s1 pms_def)
  qed
  show "J s2 = J s" "S s2 = S s"
    "length (Theta s2) = length (Theta s)" "length (cov_y s2) = length (cov_y s)"
    "length (posterior_mean s2) = length (posterior_mean s)"
    "length (posterior_cov s2) = length (posterior_cov s)"
    using m by (auto simp: s1 split: if_splits)
  show "posterior_mean s2 ! i = posterior_mean s ! i \<and> posterior_cov s2 ! i = posterior_cov s ! i"
    if "i \<noteq> j" for i
    using m that by (auto simp: s1 split: if_splits)
  show "Theta s2 ! i = Theta s ! i \<and> cov_y s2 ! i = cov_y s ! i" if "i \<noteq> j + 1" for i
    using m that by (auto simp: s1 split: if_splits)
qed

lemma em_loop_spec:
  assumes "em_loop np_inv gC gN Y [a..<Jn] s = Inr s'" and "J s = Jn" and "S s = Some (np_cov Y)"
      and "inv_spec np_inv"
  shows "(\<forall>j. a \<le> j \<and> j < Jn \<longrightarrow> em_iteration_spec np_inv gC gN Y s' j)
       \<and> J s' = Jn
       \<and> length (Theta s') = length (Theta s) \<and> length (cov_y s') = length (cov_y s)
       \<and> length (posterior_mean s') = length (posterior_mean s)
       \<and> length (posterior_cov s') = length (posterior_cov s)
       \<and> (\<forall>i<a. posterior_mean s' ! i = posterior_mean s ! i \<and> posterior_cov s' ! i = posterior_cov s ! i)
       \<and> (\<forall>i\<le>a. Theta s' ! i = Theta s ! i \<and> cov_y s' ! i = cov_y s ! i)"
  using assms
proof (induction "Jn - a" arbitrary: a s)
  case 0
  then have e: "[a..<Jn] = []" and ge: "Jn \<le> a" by simp_all
  from "0.prems"(1) have "s' = s" unfolding e by simp
  with ge "0.prems"(2) show ?case by auto
next
  case (Suc n)
  then have lt: "a < Jn" by simp
  then have u: "[a..<Jn] = a # [Suc a..<Jn]" by (simp add: upt_conv_Cons)
  from Suc.prems(1) obtain s1 s2 where
    E: "em_infer_states np_inv gC s Y a = Inr s1" and
    M: "em_learn_parameters np_inv gN s1 Y a = Inr s2" and
    L: "em_loop np_inv gC gN Y [Suc a..<Jn] s2 = Inr s'"
    unfolding u by (auto simp: ebind_def split: sum.splits)
  note st = em_iteration_step[OF E M Suc.prems(3,4)]
  have n: "n = Jn - Suc a" using Suc.hyps(2) by simp
  have J2: "J s2 = Jn" using st(2) Suc.prems(2) by simp
  have S2: "S s2 = Some (np_cov Y)" using st(3) Suc.prems(3) by simp
  note IH = Suc.hyps(1)[OF n L J2 S2 Suc.prems(4)]
  have spec_a: "em_iteration_spec np_inv gC gN Y s' a"
  proof (rule em_iteration_spec_cong[OF st(1)])
    show "Theta s' ! a = Theta s2 ! a" "cov_y s' ! a = cov_y s2 ! a" using IH by simp_all
    show "posterior_mean s' ! a = posterior_mean s2 ! a" "posterior_cov s' ! a = posterior_cov s2 ! a"
      using IH by simp_all
    show "J s' = J s2" using IH J2 by simp
    show "Theta s' ! (a + 1) = Theta s2 ! (a + 1) \<and> cov_y s' ! (a + 1) = cov_y s2 ! (a + 1)"
      using IH by simp
    show "posterior_mean_s s' = posterior_mean_s s2" if "a + 1 = J s2"
    proof -
      have "[Suc a..<Jn] = []" using that J2 by simp
      with L show ?thesis by simp
    qed
  qed
  have specs: "em_iteration_spec np_inv gC gN Y s' j" if "a \<le> j" "j < Jn" for j
  proof (cases "j = a")
    case True
    then show ?thesis using spec_a by simp
  next
    case False
    with that have "Suc a \<le> j" by simp
    with IH that show ?thesis by blast
  qed
  have frame1: "posterior_mean s' ! i = posterior_mean s ! i \<and> posterior_cov s' ! i = posterior_cov s ! i"
    if "i < a" for i
  proof -
    have "posterior_mean s' ! i = posterior_mean s2 ! i \<and> posterior_cov s' ! i = posterior_cov s2 ! i"
      using IH that by simp
    moreover have "i \<noteq> a" using that by simp
    ultimately show ?thesis using st(8)[of i] by simp
  qed
  have frame2: "Theta s' ! i = Theta s ! i \<and> cov_y s' ! i = cov_y s ! i" if "i \<le> a" for i
  proof -
    have "Theta s' ! i = Theta s2 ! i \<and> cov_y s' ! i = cov_y s2 ! i"
      using IH that by simp
    moreover have "i \<noteq> a + 1" using that by simp
    ultimately show ?thesis using st(9)[of i] by simp
  qed
  show ?case
    using specs frame1 frame2 IH st(4-7) by simp
qed

text \<open>
  Claim C6. For an agent as constructed and a run of \<open>run_EM\<close> on the observation matrix \<open>Y\<close>
  (\<open>D \<times> N\<close>) in which every inversion succeeds (\<open>inv\<close> returning inverses), for every
  iteration \<open>j < J\<close>: the E-step computed \<open>\<beta> = \<Theta>[j]\<^sup>T (\<Theta>[j] \<Theta>[j]\<^sup>T + cov_y[j])\<^sup>-\<^sup>1\<close>, stored the
  row means of \<open>\<beta> Y\<close> at index \<open>j\<close> of \<open>posterior_mean\<close> and \<open>I - \<beta> \<Theta>[j]\<close> at index \<open>j\<close> of
  \<open>posterior_cov\<close>; when \<open>j + 1 < J\<close> the M-step wrote \<open>\<Theta>[j+1] = \<delta> \<gamma>\<^sup>-\<^sup>1\<close> with \<open>\<delta> = Y (\<beta> Y)\<^sup>T\<close>
  and \<open>\<gamma> = (\<beta> Y) (\<beta> Y)\<^sup>T + N posterior_cov[j]\<close>, and
  \<open>cov_y[j+1] = diag(diag(Cov(Y) - \<Theta>[j+1] \<delta>\<^sup>T / N))\<close>, a diagonal matrix; the M-step of the last
  iteration writes nothing; and the loop runs once for every index below \<open>J\<close> and no
  further: all \<open>J\<close> entries are those of their iteration, index \<open>0\<close> of \<open>Theta\<close> and \<open>cov_y\<close> is
  the initial value, and \<open>posterior_mean_s\<close> is the one of iteration \<open>J - 1\<close>.
\<close>

theorem run_EM_iterations:
  assumes inv: "inv_spec np_inv"
      and init: "FactorAnalysisEMAgent_init params = Inr self"
      and run: "run_EM np_inv gC gN self Y = Inr self'"
      and j: "j < em_J params"
      and shapes: "gC = em_C params" "is_mat (em_D params) gN Y" "2 \<le> gN"
                  "is_mat (em_D params) (em_C params) (Theta_init params)"
                  "is_mat (em_D params) (em_D params) (cov_y_init params)"
  shows "em_iteration_spec np_inv gC gN Y self' j
       \<and> J self' = em_J params
       \<and> length (Theta self') = em_J params \<and> length (cov_y self') = em_J params
       \<and> length (posterior_mean self') = em_J params \<and> length (posterior_cov self') = em_J params
       \<and> Theta self' ! 0 = Theta_init params \<and> cov_y self' ! 0 = cov_y_init params
       \<and> (\<forall>s pms. J s = em_J params \<and> posterior_mean_s s = Some pms
                  \<and> length (posterior_cov s) = em_J params
            \<longrightarrow> em_learn_parameters np_inv gN s Y (em_J params - 1) = Inr s)"
proof -
  have Jpos: "0 < em_J params" using j by simp
  have self: "self = \<lparr>em_agent_params = params, J = em_J params,
                posterior_mean = replicate (em_J params) (replicate (em_C params) 0),
                posterior_cov = replicate (em_J params) (zeros (em_C params) (em_C params)),
                Theta = (replicate (em_J params) (zeros (em_D params) (em_C params)))[0 := Theta_init params],
                cov_y = (replicate (em_J params) (zeros (em_D params) (em_D params)))[0 := cov_y_init params],
                posterior_mean_s = None, S = None\<rparr>"
    using init Jpos by (simp add: FactorAnalysisEMAgent_init_def Let_def)
  let ?s0 = "self\<lparr>S := Some (np_cov Y)\<rparr>"
  have L: "em_loop np_inv gC gN Y [0..<em_J params] ?s0 = Inr self'"
    using run by (simp add: run_EM_def Let_def self)
  have J0: "J ?s0 = em_J params" by (simp add: self)
  have S0: "S ?s0 = Some (np_cov Y)" by simp
  note R = em_loop_spec[OF L J0 S0 inv]
  have spec: "em_iteration_spec np_inv gC gN Y self' j" using R j by simp
  have lens: "J self' = em_J params"
       "length (Theta self') = em_J params" "length (cov_y self') = em_J params"
       "length (posterior_mean self') = em_J params" "length (posterior_cov self') = em_J params"
    using R by (simp_all add: self)
  have first: "Theta self' ! 0 = Theta_init params" "cov_y self' ! 0 = cov_y_init params"
    using R Jpos by (simp_all add: self)
  have last: "em_learn_parameters np_inv gN s Y (em_J params - 1) = Inr s"
    if "J s = em_J params \<and> posterior_mean_s s = Some pms \<and> length (posterior_cov s) = em_J params"
    for s pms
    using that Jpos by (simp add: em_learn_parameters_def Let_def)
  show ?thesis using spec lens first last by blast
qed

lemma demo_init: "FactorAnalysisEMAgent_init demo_em_params = Inr demo_em_agent"
  by (simp add: FactorAnalysisEMAgent_init_def demo_em_params_def demo_em_agent_def zeros_def
      numeral_2_eq_2)

lemmas mat_eval = matmul_def mat_T_def col_def ncols_def dot_def mat_add_def mat_sub_def
  mat_smul_def mat_sdiv_def eye_def diag_of_vec_def diag_of_mat_def mean_axis1_def np_mean_def

lemma upt_2: "[0..<2] = [0, Suc 0]"
  by (simp add: upt_rec)

lemma upt_1: "[0..<Suc 0] = [0]"
  by (simp add: upt_rec)

lemma demo_cov: "np_cov demo_Y = [[2, 4], [4, 8]]"
  by (simp add: np_cov_def demo_Y_def mat_eval upt_2 Let_def)

lemma demo_iteration_0:
  "ebind (em_infer_states inv2 1 (demo_em_agent\<lparr>S := Some [[2, 4], [4, 8]]\<rparr>) demo_Y 0)
     (\<lambda>s. em_learn_parameters inv2 2 s demo_Y 0) = Inr demo_em_state1"
  by (simp add: em_infer_states_def em_learn_parameters_def ebind_def demo_em_agent_def
      demo_em_state1_def demo_Y_def mat_eval upt_2 upt_1 Let_def)

lemma demo_iteration_1:
  "ebind (em_infer_states inv2 1 demo_em_state1 demo_Y 1)
     (\<lambda>s. em_learn_parameters inv2 2 s demo_Y 1) = Inr demo_em_result"
  by (simp add: em_infer_states_def em_learn_parameters_def ebind_def demo_em_result_def
      demo_em_state1_def demo_Y_def mat_eval upt_2 upt_1 Let_def)

lemma demo_run: "run_EM inv2 1 2 demo_em_agent demo_Y = Inr demo_em_result"
proof -
  have J: "J demo_em_agent = 2" by (simp add: demo_em_agent_def)
  from demo_iteration_0 obtain sA where
    A: "em_infer_states inv2 1 (demo_em_agent\<lparr>S := Some [[2, 4], [4, 8]]\<rparr>) demo_Y 0 = Inr sA"
       "em_learn_parameters inv2 2 sA demo_Y 0 = Inr demo_em_state1"
    by (auto simp: ebind_def split: sum.splits)
  from demo_iteration_1 obtain sB where
    B: "em_infer_states inv2 1 demo_em_state1 demo_Y (Suc 0) = Inr sB"
       "em_learn_parameters inv2 2 sB demo_Y (Suc 0) = Inr demo_em_result"
    by (auto simp: ebind_def split: sum.splits)
  show ?thesis
    using A B by (simp add: run_EM_def Let_def J upt_2 demo_cov ebind_def)
qed

theorem run_EM_iterations_witness:
  "run_EM inv2 1 2 demo_em_agent demo_Y = Inr demo_em_result
   \<and> em_iteration_spec inv2 1 2 demo_Y demo_em_result 0
   \<and> posterior_cov demo_em_result ! 0 = [[1/3]]
   \<and> Theta demo_em_result ! 1 = [[3/4], [3/2]]
   \<and> cov_y demo_em_result ! 1 = [[5/4, 0], [0, 5]]
   \<and> length (Theta demo_em_result) = 2"
proof -
  have j: "0 < em_J demo_em_params" by (simp add: demo_em_params_def)
  have shapes: "1 = em_C demo_em_params" "is_mat (em_D demo_em_params) 2 demo_Y" "(2::nat) \<le> 2"
    "is_mat (em_D demo_em_params) (em_C demo_em_params) (Theta_init demo_em_params)"
    "is_mat (em_D demo_em_params) (em_D demo_em_params) (cov_y_init demo_em_params)"
    by (simp_all add: demo_em_params_def demo_Y_def is_mat_def)
  from run_EM_iterations[OF inv2_spec demo_init demo_run j shapes]
  have "em_iteration_spec inv2 1 2 demo_Y demo_em_result 0" by blast
  moreover have "posterior_cov demo_em_result ! 0 = [[1/3]]"
    "Theta demo_em_result ! 1 = [[3/4], [3/2]]" "cov_y demo_em_result ! 1 = [[5/4, 0], [0, 5]]"
    "length (Theta demo_em_result) = 2"
    by (simp_all add: demo_em_result_def)
  ultimately show ?thesis using demo_run by simp
qed

section \<open>Matrix algebra\<close>

lemma dot_sum:
  assumes "length u = length v"
  shows "dot u v = (\<Sum>k<length u. u ! k * v ! k)"
proof -
  have "dot u v = sum_list (map (\<lambda>(a, b). a * b) (zip u v))" by (simp add: dot_def)
  also have "\<dots> = (\<Sum>k = 0..<length (zip u v). map (\<lambda>(a, b). a * b) (zip u v) ! k)"
    by (simp add: sum_list_sum_nth)
  also have "\<dots> = (\<Sum>k = 0..<length u. u ! k * v ! k)"
    using assms by (intro sum.cong) simp_all
  finally show ?thesis by (simp add: atLeast0LessThan)
qed

lemma is_mat_row: "is_mat r c A \<Longrightarrow> i < r \<Longrightarrow> length (A ! i) = c"
  by (simp add: is_mat_def list_all_length)


lemma is_mat_ncols: "is_mat r c A \<Longrightarrow> 0 < r \<Longrightarrow> ncols A = c"
  by (cases A) (auto simp: is_mat_def ncols_def)

lemma is_matI:
  assumes "length A = r" and "\<And>i. i < r \<Longrightarrow> length (A ! i) = c"
  shows "is_mat r c A"
  using assms by (simp add: is_mat_def list_all_length)


lemma col_nth: "i < length A \<Longrightarrow> col A j ! i = A ! i ! j"
  by (simp add: col_def)

lemma length_col: "length (col A j) = length A"
  by (simp add: col_def)

lemma matvec_nth:
  assumes "is_mat r c A" "length v = c" "i < r"
  shows "matvec A v ! i = (\<Sum>k<c. A ! i ! k * v ! k)"
proof -
  have l: "length (A ! i) = length v" using is_mat_row[OF assms(1,3)] assms(2) by simp
  have "matvec A v ! i = dot (A ! i) v"
    using assms(1,3) by (simp add: matvec_def is_mat_def)
  also have "\<dots> = (\<Sum>k<length (A ! i). A ! i ! k * v ! k)" by (rule dot_sum[OF l])
  finally show ?thesis using l assms(2) by simp
qed

lemma length_matvec: "length (matvec A v) = length A"
  by (simp add: matvec_def)

lemma mat_T_is_mat:
  assumes "is_mat r c A" "0 < r"
  shows "is_mat c r (mat_T A)"
  using assms by (intro is_matI) (simp_all add: mat_T_def is_mat_ncols[OF assms] length_col is_mat_def)

lemma mat_T_nth:
  assumes "is_mat r c A" "0 < r" "j < c" "i < r"
  shows "mat_T A ! j ! i = A ! i ! j"
  using assms by (simp add: mat_T_def is_mat_ncols[OF assms(1,2)] col_nth is_mat_def)










lemma dot_matvec_transpose:
  assumes A: "is_mat r c A" and r: "0 < r" and u: "length u = c" and w: "length w = r"
  shows "dot (matvec A u) w = dot u (matvec (mat_T A) w)"
proof -
  have l1: "length (matvec A u) = length w" using A w by (simp add: length_matvec is_mat_def)
  have l2: "length u = length (matvec (mat_T A) w)"
    using mat_T_is_mat[OF A r] u by (simp add: length_matvec is_mat_def)
  have "dot (matvec A u) w = (\<Sum>i<r. matvec A u ! i * w ! i)"
    using dot_sum[OF l1] A by (simp add: length_matvec is_mat_def)
  also have "\<dots> = (\<Sum>i<r. (\<Sum>k<c. A ! i ! k * u ! k) * w ! i)"
    by (intro sum.cong refl) (simp add: matvec_nth[OF A u])
  also have "\<dots> = (\<Sum>i<r. \<Sum>k<c. A ! i ! k * u ! k * w ! i)"
    by (simp add: sum_distrib_right)
  also have "\<dots> = (\<Sum>k<c. \<Sum>i<r. A ! i ! k * u ! k * w ! i)"
    by (rule sum.swap)
  also have "\<dots> = (\<Sum>k<c. u ! k * (\<Sum>i<r. mat_T A ! k ! i * w ! i))"
    by (intro sum.cong refl) (simp add: sum_distrib_left mat_T_nth[OF A r] mult_ac)
  also have "\<dots> = (\<Sum>k<c. u ! k * matvec (mat_T A) w ! k)"
    by (intro sum.cong refl) (simp add: matvec_nth[OF mat_T_is_mat[OF A r] w])
  also have "\<dots> = dot u (matvec (mat_T A) w)"
    using dot_sum[OF l2] u by simp
  finally show ?thesis .
qed

section \<open>Verification of the supervised regression agent\<close>
























end
